theory Spec2Isabelle
  imports Main
begin

section \<open>Strings\<close>

text \<open>
  A JavaScript string is a sequence of code units; it is modelled as a \<open>char list\<close>, one
  \<open>char\<close> per code unit. \<open>length\<close> is \<open>String.prototype.length\<close>, \<open>take\<close> is
  \<open>substring(0, n)\<close>, \<open>@\<close> is concatenation, and a template literal is the
  concatenation of its text pieces and its interpolated values. A \<open>char\<close> has 256
  values, so the strings covered are those of code units up to 255; the functions below
  compare a code unit with ASCII characters only (and, in JSON, with the control
  range), and copy every other code unit unchanged.
\<close>

text \<open>\<open>Array.prototype.join(sep)\<close> on an array of strings.\<close>

fun join :: "string \<Rightarrow> string list \<Rightarrow> string" where
  "join sep [] = []"
| "join sep [x] = x"
| "join sep (x # y # ys) = x @ sep @ join sep (y # ys)"

text \<open>\<open>String.prototype.split(sep)\<close> for a one-character separator.\<close>

fun split :: "char \<Rightarrow> string \<Rightarrow> string list" where
  "split sep [] = [[]]"
| "split sep (c # cs) =
     (if c = sep then [] # split sep cs
      else (case split sep cs of l # ls \<Rightarrow> (c # l) # ls | [] \<Rightarrow> [[c]]))"

text \<open>\<open>String.prototype.startsWith\<close>: \<open>startsWith p s\<close> holds when \<open>s\<close> begins with \<open>p\<close>.\<close>

fun startsWith :: "string \<Rightarrow> string \<Rightarrow> bool" where
  "startsWith [] s = True"
| "startsWith (p # ps) [] = False"
| "startsWith (p # ps) (c # cs) = (p = c \<and> startsWith ps cs)"

text \<open>
  The number of positions of \<open>s\<close> at which \<open>p\<close> occurs. For a pattern that cannot overlap
  itself (every tag name counted below starts with \<open><\<close> and has no other \<open><\<close>) this is
  \<open>(s.match(/p/g) || []).length\<close>, the way the test suite counts elements.
\<close>

fun countOcc :: "string \<Rightarrow> string \<Rightarrow> nat" where
  "countOcc p [] = (if p = [] then 1 else 0)"
| "countOcc p (c # cs) = (if startsWith p (c # cs) then 1 else 0) + countOcc p cs"

text \<open>\<open>String.prototype.includes\<close>.\<close>

definition includesStr :: "string \<Rightarrow> string \<Rightarrow> bool" where
  "includesStr s p = (0 < countOcc p s)"

text \<open>
  \<open>str.replace(/c/g, r)\<close> for a regular expression that is one literal character:
  every occurrence of the character \<open>c\<close> is replaced by the string \<open>r\<close>.
\<close>

definition replaceAll :: "char \<Rightarrow> string \<Rightarrow> string \<Rightarrow> string" where
  "replaceAll c r str = concat (map (\<lambda>x. if x = c then r else [x]) str)"

section \<open>robots.txt generator (src/seo/robots.ts)\<close>

definition generateRobotsTxt :: "string \<Rightarrow> string" where
  "generateRobotsTxt sitemapUrl =
     ''User-agent: *\<newline>'' @
     ''Allow: /\<newline>'' @
     ''\<newline>'' @
     ''Sitemap: '' @ sitemapUrl"

section \<open>Meta tags generator (src/seo/meta-tags.ts)\<close>

text \<open>
  \<open>truncateDescription(description, maxLength = 160)\<close>. The optional parameter is an
  \<open>option\<close>: \<open>None\<close> is the call that leaves it out. \<open>maxLength\<close> is an integer;
  \<open>substring(0, n)\<close> treats a negative \<open>n\<close> as 0, which is what \<open>nat\<close> does.
\<close>

definition truncateDescription :: "string \<Rightarrow> int option \<Rightarrow> string" where
  "truncateDescription description maxLength' =
     (let maxLength = (case maxLength' of None \<Rightarrow> 160 | Some m \<Rightarrow> m) in
      if int (length description) \<le> maxLength then description
      else take (nat (maxLength - 3)) description @ ''...'')"

text \<open>The lookup table of \<open>escapeHtml\<close>.\<close>

definition escapeHtml_map :: "char \<rightharpoonup> string" where
  "escapeHtml_map =
     [CHR ''&'' \<mapsto> ''&amp;'',
      CHR ''<'' \<mapsto> ''&lt;'',
      CHR ''>'' \<mapsto> ''&gt;'',
      CHR 0x22 \<mapsto> ''&quot;'',
      CHR 0x27 \<mapsto> ''&#039;'']"

text \<open>
  \<open>text.replace(/[&<>"']/g, (char) => map[char])\<close>: each character of the class is
  replaced by its table entry, every other character is kept.
\<close>

definition escapeHtml :: "string \<Rightarrow> string" where
  "escapeHtml text =
     concat (map (\<lambda>char. if char \<in> {CHR ''&'', CHR ''<'', CHR ''>'', CHR 0x22, CHR 0x27}
                          then the (escapeHtml_map char) else [char]) text)"

section \<open>Sitemap generator (src/seo/sitemap.ts)\<close>

datatype changefreq = Always | Hourly | Daily | Weekly | Monthly | Yearly | Never

text \<open>The string each member of the union type is at run time.\<close>

fun changefreqString :: "changefreq \<Rightarrow> string" where
  "changefreqString Always = ''always''"
| "changefreqString Hourly = ''hourly''"
| "changefreqString Daily = ''daily''"
| "changefreqString Weekly = ''weekly''"
| "changefreqString Monthly = ''monthly''"
| "changefreqString Yearly = ''yearly''"
| "changefreqString Never = ''never''"

text \<open>
  \<open>priority\<close> is a JavaScript number. Its type is left open (\<open>'n\<close>), and the conversion a
  template literal applies to it (\<open>Number::toString\<close>) is a parameter \<open>numberToString\<close> of
  the generator.
\<close>

record 'n SitemapURL =
  loc :: string
  lastmod :: string
  changefreq :: changefreq
  priority :: 'n

definition escapeXml :: "string \<Rightarrow> string" where
  "escapeXml str =
     replaceAll (CHR 0x27) ''&apos;''
       (replaceAll (CHR 0x22) ''&quot;''
         (replaceAll (CHR ''>'') ''&gt;''
           (replaceAll (CHR ''<'') ''&lt;''
             (replaceAll (CHR ''&'') ''&amp;'' str))))"

text \<open>The callback of \<open>urls.map\<close>: the block of one entry.\<close>

definition urlEntry :: "('n \<Rightarrow> string) \<Rightarrow> 'n SitemapURL \<Rightarrow> string" where
  "urlEntry numberToString url =
     ''  <url>\<newline>'' @
     ''    <loc>'' @ escapeXml (loc url) @ ''</loc>\<newline>'' @
     ''    <lastmod>'' @ lastmod url @ ''</lastmod>\<newline>'' @
     ''    <changefreq>'' @ changefreqString (changefreq url) @ ''</changefreq>\<newline>'' @
     ''    <priority>'' @ numberToString (priority url) @ ''</priority>\<newline>'' @
     ''  </url>''"

definition sitemapHeader :: string where
  \<open>sitemapHeader =
     ''<?xml version="1.0" encoding="UTF-8"?>\<newline>'' @
     ''<urlset xmlns="http://www.sitemaps.org/schemas/sitemap/0.9">\<newline>''\<close>

definition sitemapFooter :: string where
  "sitemapFooter = ''\<newline></urlset>''"

definition generateSitemap :: "('n \<Rightarrow> string) \<Rightarrow> 'n SitemapURL list \<Rightarrow> string" where
  "generateSitemap numberToString urls =
     (let urlEntries = join ''\<newline>'' (map (urlEntry numberToString) urls)
      in sitemapHeader @ urlEntries @ sitemapFooter)"

text \<open>
  Inputs used to evaluate the generators. \<open>tenthsToString k\<close> is \<open>Number::toString\<close> on
  the priorities \<open>k / 10\<close> for \<open>k \<le> 10\<close>: \<open>0\<close>, \<open>0.1\<close>, ..., \<open>0.9\<close>, \<open>1\<close>.
\<close>

definition tenthsToString :: "nat \<Rightarrow> string" where
  "tenthsToString k =
     (if k = 0 then ''0'' else if 10 \<le> k then ''1''
      else ''0.'' @ [''0123456789'' ! k])"

definition exampleUrls :: "nat SitemapURL list" where
  "exampleUrls =
     [\<lparr>loc = ''https://example.com/'', lastmod = ''2024-01-01T00:00:00.000Z'',
       changefreq = Weekly, priority = 10\<rparr>,
      \<lparr>loc = ''https://example.com/page?a=1&b=2'', lastmod = ''2024-01-02T00:00:00.000Z'',
       changefreq = Monthly, priority = 8\<rparr>]"

text \<open>
  The contract of a \<open>SitemapURL\<close> entry. \<open>lastmod\<close> is an ISO 8601 date or date-time
  (\<open>types.ts\<close>: "ISO 8601 format"; the caller passes \<open>new Date().toISOString()\<close>): such a
  text is written with digits and the signs \<open>-\<close>, \<open>:\<close>, \<open>.\<close>, \<open>,\<close>, \<open>+\<close> and the
  letters \<open>T\<close>, \<open>Z\<close>, \<open>W\<close>. The text \<open>Number::toString\<close> gives a number is written
  with digits, \<open>.\<close>, \<open>-\<close>, \<open>+\<close>, \<open>e\<close> and the letters of \<open>NaN\<close> and \<open>Infinity\<close>.
\<close>

definition iso8601Text :: "string \<Rightarrow> bool" where
  "iso8601Text s = list_all (\<lambda>c. c \<in> set ''0123456789-:.,+TZW'') s"

definition numberText :: "string \<Rightarrow> bool" where
  "numberText s = list_all (\<lambda>c. c \<in> set ''0123456789.-+eNaInfity'') s"

definition sitemapContract :: "('n \<Rightarrow> string) \<Rightarrow> 'n SitemapURL \<Rightarrow> bool" where
  "sitemapContract numberToString u =
     (iso8601Text (lastmod u) \<and> numberText (numberToString (priority u)))"

text \<open>The number of opening tags \<open><tag>\<close> and of closing tags \<open></tag>\<close> in a document.\<close>

definition elementCount :: "string \<Rightarrow> string \<Rightarrow> nat" where
  "elementCount tag xml = countOcc (''<'' @ tag @ ''>'') xml"

definition closingCount :: "string \<Rightarrow> string \<Rightarrow> nat" where
  "closingCount tag xml = countOcc (''</'' @ tag @ ''>'') xml"

text \<open>
  Well-formedness, after XML 1.0. The checker below accepts a part of the well-formed
  documents and nothing else; what it accepts:
  \<^item> the document may begin with the declaration \<open><?xml version="1.0" encoding="UTF-8"?>\<close>,
    and holds no other \<open><?\<close> or \<open><!\<close> construct;
  \<^item> then comes one element, with nothing but white space before and after it;
  \<^item> an element is a start tag \<open><name attributes>\<close>, content, and the end tag \<open></name>\<close>
    of the same name; a name starts with a letter, \<open>_\<close> or \<open>:\<close> and goes on with
    letters, digits, \<open>-\<close>, \<open>.\<close>, \<open>_\<close>, \<open>:\<close>; each attribute is one space, a name, \<open>=\<close>
    and a value in double quotes free of \<open><\<close>, \<open>&\<close> and \<open>"\<close>; no attribute name occurs
    twice in a tag;
  \<^item> content is elements, the references \<open>&amp;\<close> \<open>&lt;\<close> \<open>&gt;\<close> \<open>&quot;\<close> \<open>&apos;\<close>,
    and text free of \<open><\<close>, \<open>&\<close> and \<open>>\<close> (so free of \<open>]]>\<close>);
  \<^item> every character is an XML character: tab, line feed, carriage return, or from the
    space upwards.
\<close>

definition xmlChar :: "char \<Rightarrow> bool" where
  "xmlChar c = (c = CHR 0x09 \<or> c = CHR 0x0A \<or> c = CHR 0x0D \<or> 0x20 \<le> (of_char c :: nat))"

definition xmlSpace :: "char \<Rightarrow> bool" where
  "xmlSpace c = (c = CHR '' '' \<or> c = CHR 0x09 \<or> c = CHR 0x0A \<or> c = CHR 0x0D)"

definition asciiLetter :: "char \<Rightarrow> bool" where
  "asciiLetter c =
     (let n = (of_char c :: nat) in (65 \<le> n \<and> n \<le> 90) \<or> (97 \<le> n \<and> n \<le> 122))"

definition nameStartChar :: "char \<Rightarrow> bool" where
  "nameStartChar c = (asciiLetter c \<or> c = CHR ''_'' \<or> c = CHR '':'')"

definition nameChar :: "char \<Rightarrow> bool" where
  "nameChar c =
     (nameStartChar c \<or> c = CHR ''-'' \<or> c = CHR ''.'' \<or>
      (let n = (of_char c :: nat) in 48 \<le> n \<and> n \<le> 57))"

definition xmlName :: "string \<Rightarrow> bool" where
  "xmlName s = (case s of [] \<Rightarrow> False | c # cs \<Rightarrow> nameStartChar c \<and> list_all nameChar cs)"

definition attValueChar :: "char \<Rightarrow> bool" where
  "attValueChar c = (xmlChar c \<and> c \<noteq> CHR ''<'' \<and> c \<noteq> CHR ''&'' \<and> c \<noteq> CHR 0x22)"

text \<open>A character that may stand in the text of an element as it is.\<close>

definition plainChar :: "char \<Rightarrow> bool" where
  "plainChar c = (xmlChar c \<and> c \<noteq> CHR ''<'' \<and> c \<noteq> CHR ''&'' \<and> c \<noteq> CHR ''>'')"

text \<open>
  The attributes of a start tag, after its name: \<open>fuel\<close> bounds the number of
  attributes read and is the length of the text where the function is used, which is
  more than the text can hold.
\<close>

fun parseAttributes :: "nat \<Rightarrow> string \<Rightarrow> (string \<times> string) list option" where
  "parseAttributes fuel [] = Some []"
| "parseAttributes 0 (c # cs) = None"
| "parseAttributes (Suc fuel) (c # cs) =
     (if c = CHR '' '' then
        (let name = takeWhile nameChar cs; afterName = dropWhile nameChar cs in
         case afterName of
           e # q # afterQuote \<Rightarrow>
             (let val = takeWhile (\<lambda>x. x \<noteq> CHR 0x22) afterQuote;
                  afterValue = dropWhile (\<lambda>x. x \<noteq> CHR 0x22) afterQuote in
              if e = CHR ''='' \<and> q = CHR 0x22 \<and> xmlName name \<and> list_all attValueChar val
              then (case afterValue of
                      [] \<Rightarrow> None
                    | closing # rest \<Rightarrow>
                        (case parseAttributes fuel rest of
                           None \<Rightarrow> None
                         | Some attrs \<Rightarrow> Some ((name, val) # attrs)))
              else None)
         | _ \<Rightarrow> None)
      else None)"

text \<open>
  The scanner reads the document character by character. Its state: in content
  (\<open>XText\<close>), inside a tag after \<open><\<close> (\<open>XTag\<close>), inside a reference after \<open>&\<close>
  (\<open>XRef\<close>), each with the stack of open elements and the number of top-level elements
  opened so far; or failed.
\<close>

datatype xmlState =
    XText "string list" nat
  | XTag "string list" nat string
  | XRef "string list" nat string
  | XFail

text \<open>The tag whose text between \<open><\<close> and \<open>>\<close> is \<open>buf\<close>.\<close>

definition xmlTag :: "string list \<Rightarrow> nat \<Rightarrow> string \<Rightarrow> xmlState" where
  "xmlTag stack roots buf =
     (case buf of
        [] \<Rightarrow> XFail
      | b # bs \<Rightarrow>
          if b = CHR ''/'' then
            (case stack of
               [] \<Rightarrow> XFail
             | open # rest \<Rightarrow> if xmlName bs \<and> open = bs then XText rest roots else XFail)
          else
            (let name = takeWhile nameChar buf; attributes = dropWhile nameChar buf in
             case parseAttributes (length attributes) attributes of
               None \<Rightarrow> XFail
             | Some attrs \<Rightarrow>
                 if xmlName name \<and> distinct (map fst attrs) \<and> (if stack = [] then roots = 0 else True)
                 then XText (name # stack) (if stack = [] then Suc roots else roots)
                 else XFail))"

fun xmlStep :: "xmlState \<Rightarrow> char \<Rightarrow> xmlState" where
  "xmlStep (XText stack roots) c =
     (if c = CHR ''<'' then XTag stack roots []
      else if stack = [] then (if xmlSpace c then XText stack roots else XFail)
      else if c = CHR ''&'' then XRef stack roots []
      else if c = CHR ''>'' then XFail
      else if xmlChar c then XText stack roots
      else XFail)"
| "xmlStep (XTag stack roots buf) c =
     (if c = CHR ''>'' then xmlTag stack roots buf
      else if c = CHR ''<'' then XFail
      else if xmlChar c then XTag stack roots (buf @ [c])
      else XFail)"
| "xmlStep (XRef stack roots buf) c =
     (if c = CHR '';'' then
        (if buf \<in> set [''amp'', ''lt'', ''gt'', ''quot'', ''apos''] then XText stack roots else XFail)
      else if asciiLetter c then XRef stack roots (buf @ [c])
      else XFail)"
| "xmlStep XFail c = XFail"

definition xmlDeclaration :: string where
  \<open>xmlDeclaration = ''<?xml version="1.0" encoding="UTF-8"?>''\<close>

text \<open>\<open>stripPrefix p s\<close> is the rest of \<open>s\<close> after its prefix \<open>p\<close>, if \<open>s\<close> begins with \<open>p\<close>.\<close>

fun stripPrefix :: "string \<Rightarrow> string \<Rightarrow> string option" where
  "stripPrefix [] s = Some s"
| "stripPrefix (p # ps) [] = None"
| "stripPrefix (p # ps) (c # cs) = (if p = c then stripPrefix ps cs else None)"

definition wellFormedXml :: "string \<Rightarrow> bool" where
  "wellFormedXml s =
     (let body = (case stripPrefix xmlDeclaration s of Some rest \<Rightarrow> rest | None \<Rightarrow> s)
      in foldl xmlStep (XText [] 0) body = XText [] 1)"

text \<open>
  The entity the claims give for each character: \<open>&\<close>, \<open><\<close>, \<open>>\<close>, \<open>"\<close>, \<open>'\<close> become
  \<open>&amp;\<close>, \<open>&lt;\<close>, \<open>&gt;\<close>, \<open>&quot;\<close>, \<open>&apos;\<close>; every other character stands for itself.
\<close>

definition xmlEntity :: "char \<Rightarrow> string" where
  "xmlEntity c =
     (if c = CHR ''&'' then ''&amp;''
      else if c = CHR ''<'' then ''&lt;''
      else if c = CHR ''>'' then ''&gt;''
      else if c = CHR 0x22 then ''&quot;''
      else if c = CHR 0x27 then ''&apos;''
      else [c])"



section \<open>Meta tags generator, continued\<close>

text \<open>
  The configuration interfaces of \<open>types.ts\<close>. An optional field \<open>f?: T\<close> is a
  \<open>T option\<close>; \<open>None\<close> is the absent field.
\<close>

record MetaTagsConfig =
  title :: string
  description :: string
  canonicalUrl :: string
  "keywords" :: "string list option"
  author :: "string option"

record OpenGraphTags =
  ogTitle :: string
  ogDescription :: string
  ogImage :: string
  ogType :: string
  ogUrl :: string
  ogSiteName :: "string option"

record TwitterCardTags =
  twitterCard :: string
  twitterTitle :: string
  twitterDescription :: string
  twitterImage :: string
  twitterSite :: "string option"
  twitterCreator :: "string option"

text \<open>
  The truth value JavaScript gives an optional string in \<open>if (x)\<close>: \<open>undefined\<close> and the
  empty string are falsy, every other string is truthy.
\<close>

definition truthy :: "string option \<Rightarrow> bool" where
  "truthy x = (case x of None \<Rightarrow> False | Some s \<Rightarrow> s \<noteq> [])"

text \<open>
  \<open>tags.push(t)\<close> appends \<open>t\<close> to the array; each \<open>let\<close> below is one statement of the
  source, in its order.
\<close>

definition generateBasicMetaTags :: "MetaTagsConfig \<Rightarrow> string" where
  \<open>generateBasicMetaTags config =
     (let description' = truncateDescription (description config) None;
          tags = [];
          tags = tags @ [''<meta charset="UTF-8">''];
          tags = tags @ [''<meta name="viewport" content="width=device-width, initial-scale=1.0">''];
          tags = tags @ [''<title>'' @ escapeHtml (title config) @ ''</title>''];
          tags = tags @ [''<meta name="description" content="'' @ escapeHtml description' @ ''">''];
          tags = (case keywords config of
                    None \<Rightarrow> tags
                  | Some ks \<Rightarrow>
                      if 0 < length ks
                      then (let keywordsStr = join '', '' ks
                            in tags @ [''<meta name="keywords" content="'' @ escapeHtml keywordsStr @ ''">''])
                      else tags);
          tags = (if truthy (author config)
                  then tags @ [''<meta name="author" content="'' @ escapeHtml (the (author config)) @ ''">'']
                  else tags);
          tags = tags @ [''<link rel="canonical" href="'' @ escapeHtml (canonicalUrl config) @ ''">'']
      in join ''\<newline>'' tags)\<close>

definition generateOpenGraphTags :: "OpenGraphTags \<Rightarrow> string" where
  \<open>generateOpenGraphTags config =
     (let tags = [];
          tags = tags @ [''<meta property="og:title" content="'' @ escapeHtml (ogTitle config) @ ''">''];
          tags = tags @ [''<meta property="og:description" content="'' @ escapeHtml (ogDescription config) @ ''">''];
          tags = tags @ [''<meta property="og:image" content="'' @ escapeHtml (ogImage config) @ ''">''];
          tags = tags @ [''<meta property="og:type" content="'' @ escapeHtml (ogType config) @ ''">''];
          tags = tags @ [''<meta property="og:url" content="'' @ escapeHtml (ogUrl config) @ ''">''];
          tags = (if truthy (ogSiteName config)
                  then tags @ [''<meta property="og:site_name" content="'' @ escapeHtml (the (ogSiteName config)) @ ''">'']
                  else tags)
      in join ''\<newline>'' tags)\<close>

definition generateTwitterCardTags :: "TwitterCardTags \<Rightarrow> string" where
  \<open>generateTwitterCardTags config =
     (let tags = [];
          tags = tags @ [''<meta name="twitter:card" content="'' @ escapeHtml (twitterCard config) @ ''">''];
          tags = tags @ [''<meta name="twitter:title" content="'' @ escapeHtml (twitterTitle config) @ ''">''];
          tags = tags @ [''<meta name="twitter:description" content="'' @ escapeHtml (twitterDescription config) @ ''">''];
          tags = tags @ [''<meta name="twitter:image" content="'' @ escapeHtml (twitterImage config) @ ''">''];
          tags = (if truthy (twitterSite config)
                  then tags @ [''<meta name="twitter:site" content="'' @ escapeHtml (the (twitterSite config)) @ ''">'']
                  else tags);
          tags = (if truthy (twitterCreator config)
                  then tags @ [''<meta name="twitter:creator" content="'' @ escapeHtml (the (twitterCreator config)) @ ''">'']
                  else tags)
      in join ''\<newline>'' tags)\<close>

text \<open>Configurations used to evaluate the generators.\<close>

definition emptyAuthorConfig :: MetaTagsConfig where
  "emptyAuthorConfig =
     \<lparr>title = ''Test Title'', description = ''Test description'',
      canonicalUrl = ''https://example.com'', keywords = None, author = Some ''''\<rparr>"

definition emptySiteNameConfig :: OpenGraphTags where
  "emptySiteNameConfig =
     \<lparr>ogTitle = ''Title'', ogDescription = ''Description'',
      ogImage = ''https://example.com/image.jpg'', ogType = ''website'',
      ogUrl = ''https://example.com'', ogSiteName = Some ''''\<rparr>"

definition emptyHandlesConfig :: TwitterCardTags where
  "emptyHandlesConfig =
     \<lparr>twitterCard = ''summary_large_image'', twitterTitle = ''Title'',
      twitterDescription = ''Description'', twitterImage = ''https://example.com/image.jpg'',
      twitterSite = Some '''', twitterCreator = Some ''@creator''\<rparr>"

section \<open>Configuration (src/seo/config.ts)\<close>

text \<open>
  \<open>Env\<close>, the environment bindings of Cloudflare Pages, and \<open>process.env\<close> are objects
  with optional string properties, read by \<open>obj[key]\<close>: maps from keys to strings.
  The bindings are an optional argument (\<open>env?: Env\<close>), and \<open>process\<close> or \<open>process.env\<close>
  may be missing: both are \<open>option\<close>s. The process environment is global state in the
  source; here it is the explicit first argument of every function that reads it.
\<close>

type_synonym Env = "string \<rightharpoonup> string"

text \<open>
  \<open>obj && obj[key]\<close>: the value when the object is there and the property is a truthy
  (non-empty) string.
\<close>

definition truthyProperty :: "Env option \<Rightarrow> string \<Rightarrow> string option" where
  "truthyProperty obj key =
     (case obj of
        None \<Rightarrow> None
      | Some e \<Rightarrow> (case e key of None \<Rightarrow> None | Some v \<Rightarrow> if v = [] then None else Some v))"

definition getEnv :: "Env option \<Rightarrow> string \<Rightarrow> string option \<Rightarrow> Env option \<Rightarrow> string" where
  "getEnv process_env key defaultValue' env =
     (let defaultValue = (case defaultValue' of None \<Rightarrow> [] | Some d \<Rightarrow> d) in
      case truthyProperty env key of
        Some v \<Rightarrow> v
      | None \<Rightarrow>
          (case truthyProperty process_env key of
             Some v \<Rightarrow> v
           | None \<Rightarrow> defaultValue))"

definition isProduction :: "Env option \<Rightarrow> Env option \<Rightarrow> bool" where
  "isProduction process_env env =
     (let environment = getEnv process_env ''ENVIRONMENT'' (Some ''production'') env
      in environment = ''production'')"

record SiteConfig =
  url :: string
  domain :: string

definition createSiteConfig :: "Env option \<Rightarrow> Env option \<Rightarrow> SiteConfig" where
  "createSiteConfig process_env env =
     (let siteUrl = getEnv process_env ''SITE_URL'' (Some ''https://sandeepkommineni.me'') env;
          siteDomain = getEnv process_env ''SITE_DOMAIN'' (Some ''sandeepkommineni.me'') env
      in \<lparr>url = siteUrl, domain = siteDomain\<rparr>)"

definition SITE_URL :: "Env option \<Rightarrow> string" where
  "SITE_URL process_env = getEnv process_env ''SITE_URL'' (Some ''https://sandeepkommineni.me'') None"

definition SITE_DOMAIN :: "Env option \<Rightarrow> string" where
  "SITE_DOMAIN process_env = getEnv process_env ''SITE_DOMAIN'' (Some ''sandeepkommineni.me'') None"

text \<open>
  The em dash (U+2014) of the two literals below is one code unit of the source, beyond
  the 256 values of \<open>char\<close>. One \<open>char\<close> stands for it here (0x97, the code the em dash
  has in Windows-1252), so that the literals have the length they have in the source.
\<close>

definition emDash :: char where
  "emDash = CHR 0x97"

definition SITE_NAME :: string where
  "SITE_NAME = ''Sandeep Kommineni '' @ [emDash] @ '' AI/ML Engineer & Full-Stack Developer''"

definition SITE_AUTHOR :: string where
  "SITE_AUTHOR = ''Sandeep Kommineni''"

definition SITE_DESCRIPTION :: string where
  "SITE_DESCRIPTION = ''Sandeep Kommineni '' @ [emDash] @
     '' AI/ML Engineer building production-grade AI platforms. Expert in Generative AI, LLMs, real-time systems, and full-stack development.''"

record Location =
  city :: string
  region :: string
  country :: string

record SocialProfiles =
  github :: string
  linkedin :: string

record PersonData =
  name :: string
  jobTitle :: string
  email :: string
  phone :: string
  location :: Location
  socialProfiles :: SocialProfiles
  image :: "string option"
  bio :: "string option"

definition PERSON_DATA :: "Env option \<Rightarrow> PersonData" where
  "PERSON_DATA process_env =
     \<lparr>name = ''Sandeep Kommineni'',
      jobTitle = ''AI/ML Engineer & Full-Stack Developer'',
      email = ''sandeepkommineni2@gmail.com'',
      phone = ''+919573456001'',
      location = \<lparr>city = ''Guntur'', region = ''Andhra Pradesh'', country = ''India''\<rparr>,
      socialProfiles =
        \<lparr>github = ''https://github.com/SANDEEPxKOMMINENI'',
         linkedin = ''https://www.linkedin.com/in/sandeep-chowdary-kommineni/''\<rparr>,
      image = Some (SITE_URL process_env @ ''/static/profile.jpg''),
      bio = Some ''AI/ML Engineer with real-world experience building and deploying production-grade AI platforms. Expert in Generative AI, LLMs, real-time systems, and scalable full-stack applications.''\<rparr>"

definition PRIMARY_KEYWORDS :: "string list" where
  "PRIMARY_KEYWORDS =
     [''Sandeep Kommineni'', ''AI/ML Engineer'', ''Full-Stack Developer'',
      ''Generative AI Engineer'', ''LLM Engineer'', ''AI Developer'']"

definition SECONDARY_KEYWORDS :: "string list" where
  "SECONDARY_KEYWORDS =
     [''React Developer'', ''Python Developer'', ''FastAPI'', ''Next.js'', ''LiveKit'',
      ''OpenAI'', ''Machine Learning'', ''Deep Learning'', ''NLP'', ''Computer Vision'',
      ''RAG'', ''Agentic AI'', ''Real-time AI'', ''Multimodal AI'']"

definition LOCATION_KEYWORDS :: "string list" where
  "LOCATION_KEYWORDS =
     [''Guntur'', ''Andhra Pradesh'', ''India'', ''AI Engineer India'',
      ''ML Engineer Andhra Pradesh'']"

definition ALL_KEYWORDS :: "string list" where
  "ALL_KEYWORDS = PRIMARY_KEYWORDS @ SECONDARY_KEYWORDS @ LOCATION_KEYWORDS"

record AnalyticsConfig =
  googleAnalyticsId :: "string option"
  googleSearchConsoleId :: "string option"
  enableDebug :: "bool option"

definition createAnalyticsConfig :: "Env option \<Rightarrow> Env option \<Rightarrow> AnalyticsConfig" where
  "createAnalyticsConfig process_env env =
     (let gaMeasurementId = getEnv process_env ''GA_MEASUREMENT_ID'' (Some []) env;
          gscVerificationId = getEnv process_env ''GSC_VERIFICATION_ID'' (Some []) env;
          analyticsDebug = (\<not> isProduction process_env env)
      in \<lparr>googleAnalyticsId = Some gaMeasurementId,
          googleSearchConsoleId = Some gscVerificationId,
          enableDebug = Some analyticsDebug\<rparr>)"

record SiteInfo =
  name :: string
  url :: string
  domain :: string
  author :: string
  description :: string

record SEOMeta =
  title :: string
  description :: string
  "keywords" :: "string list"
  ogImage :: string

record SEOConfig =
  site :: SiteInfo
  meta :: SEOMeta
  person :: PersonData
  analytics :: AnalyticsConfig
  environment :: string

definition createSEOConfig :: "Env option \<Rightarrow> Env option \<Rightarrow> SEOConfig" where
  "createSEOConfig process_env env =
     (let siteConfig = createSiteConfig process_env env;
          analyticsConfig = createAnalyticsConfig process_env env
      in \<lparr>site =
            \<lparr>name = SITE_NAME,
             url = SiteConfig.url siteConfig,
             domain = SiteConfig.domain siteConfig,
             author = SITE_AUTHOR,
             description = SITE_DESCRIPTION\<rparr>,
          meta =
            \<lparr>title = SITE_NAME,
             description = SITE_DESCRIPTION,
             keywords = ALL_KEYWORDS,
             ogImage = SiteConfig.url siteConfig @ ''/static/profile.jpg''\<rparr>,
          person =
            (PERSON_DATA process_env)
              \<lparr>image := Some (SiteConfig.url siteConfig @ ''/static/profile.jpg'')\<rparr>,
          analytics = analyticsConfig,
          environment = (if isProduction process_env env then ''production'' else ''development'')\<rparr>)"

text \<open>
  The resolution rule in the words of the specification: the layers are looked at in
  order (the caller's bindings, the process environment, the hardcoded default), an
  absent value and an empty one are passed over, and the first non-empty value wins;
  when no layer has one the result is the empty string.
\<close>

fun firstNonEmpty :: "string option list \<Rightarrow> string \<Rightarrow> string" where
  "firstNonEmpty [] dflt = dflt"
| "firstNonEmpty (None # layers) dflt = firstNonEmpty layers dflt"
| "firstNonEmpty (Some v # layers) dflt = (if v = [] then firstNonEmpty layers dflt else v)"

text \<open>The value a layer holds for a key, if the layer exists and has the key.\<close>

definition layerValue :: "Env option \<Rightarrow> string \<Rightarrow> string option" where
  "layerValue layer key = (case layer of None \<Rightarrow> None | Some e \<Rightarrow> e key)"

definition resolve :: "Env option \<Rightarrow> Env option \<Rightarrow> string \<Rightarrow> string \<Rightarrow> string" where
  "resolve env process_env key dflt =
     firstNonEmpty [layerValue env key, layerValue process_env key, Some dflt] []"

section \<open>JSON (the built-in \<open>JSON.stringify\<close> and \<open>JSON.parse\<close>)\<close>

text \<open>
  The structured-data generators build objects whose values are strings, arrays and
  nested objects, and serialise them with \<open>JSON.stringify(schema, null, 2)\<close>. A JavaScript
  object is its list of properties in insertion order.
\<close>

datatype json = JString string | JArray "json list" | JObject "(string \<times> json) list"

text \<open>\<open>obj[key] = v\<close>: an existing property keeps its place, a new one goes last.\<close>

fun setProperty :: "string \<Rightarrow> json \<Rightarrow> (string \<times> json) list \<Rightarrow> (string \<times> json) list" where
  "setProperty key v [] = [(key, v)]"
| "setProperty key v ((k, x) # props) =
     (if k = key then (k, v) # props else (k, x) # setProperty key v props)"

text \<open>
  \<open>obj[key]\<close> on the property list of an object; should a key be listed twice (a parsed
  text may do that), the last entry is the property, as for \<open>JSON.parse\<close>.
\<close>

fun getProperty :: "(string \<times> json) list \<Rightarrow> string \<Rightarrow> json option" where
  "getProperty [] key = None"
| "getProperty ((k, x) # props) key =
     (case getProperty props key of
        Some y \<Rightarrow> Some y
      | None \<Rightarrow> if k = key then Some x else None)"

text \<open>\<open>obj[key1][key2] = v\<close> where \<open>obj[key1]\<close> is an object.\<close>

definition setNestedProperty ::
    "string \<Rightarrow> string \<Rightarrow> json \<Rightarrow> (string \<times> json) list \<Rightarrow> (string \<times> json) list" where
  "setNestedProperty key1 key2 v props =
     (case getProperty props key1 of
        Some (JObject inner) \<Rightarrow> setProperty key1 (JObject (setProperty key2 v inner)) props
      | _ \<Rightarrow> props)"

text \<open>
  \<open>QuoteJSONString\<close> of the language specification: the two-character escapes, \<open>\u00xx\<close>
  for the other control characters, every other code unit as it is.
\<close>

definition hexDigit :: "nat \<Rightarrow> char" where
  "hexDigit n = ''0123456789abcdef'' ! n"

definition quoteJSONChar :: "char \<Rightarrow> string" where
  "quoteJSONChar c =
     (if c = CHR 0x08 then [CHR 0x5C, CHR ''b'']
      else if c = CHR 0x09 then [CHR 0x5C, CHR ''t'']
      else if c = CHR 0x0A then [CHR 0x5C, CHR ''n'']
      else if c = CHR 0x0C then [CHR 0x5C, CHR ''f'']
      else if c = CHR 0x0D then [CHR 0x5C, CHR ''r'']
      else if c = CHR 0x22 then [CHR 0x5C, CHR 0x22]
      else if c = CHR 0x5C then [CHR 0x5C, CHR 0x5C]
      else if (of_char c :: nat) < 0x20
      then [CHR 0x5C, CHR ''u'', CHR ''0'', CHR ''0'',
            hexDigit (of_char c div 16), hexDigit (of_char c mod 16)]
      else [c])"

definition quoteJSONString :: "string \<Rightarrow> string" where
  "quoteJSONString s = [CHR 0x22] @ concat (map quoteJSONChar s) @ [CHR 0x22]"

text \<open>The gap of \<open>JSON.stringify(value, null, 2)\<close>: two spaces.\<close>

definition gap :: string where
  "gap = ''  ''"

text \<open>
  \<open>SerializeJSONProperty\<close>, with \<open>SerializeJSONArray\<close> and \<open>SerializeJSONObject\<close>, for a
  non-empty gap; \<open>indent\<close> is the current indentation.
\<close>

fun serializeJSONProperty :: "string \<Rightarrow> json \<Rightarrow> string" where
  "serializeJSONProperty indent (JString s) = quoteJSONString s"
| "serializeJSONProperty indent (JArray vs) =
     (if vs = [] then ''[]''
      else (let stepback = indent;
                indent = indent @ gap;
                partial = map (serializeJSONProperty indent) vs;
                separator = '',\<newline>'' @ indent;
                properties = join separator partial
            in ''['' @ ''\<newline>'' @ indent @ properties @ ''\<newline>'' @ stepback @ '']''))"
| "serializeJSONProperty indent (JObject kvs) =
     (if kvs = [] then ''{}''
      else (let stepback = indent;
                indent = indent @ gap;
                partial = map (\<lambda>(k, v). quoteJSONString k @ '': '' @ serializeJSONProperty indent v) kvs;
                separator = '',\<newline>'' @ indent;
                properties = join separator partial
            in ''{'' @ ''\<newline>'' @ indent @ properties @ ''\<newline>'' @ stepback @ ''}''))"

definition JSON_stringify :: "json \<Rightarrow> string" where
  "JSON_stringify v = serializeJSONProperty [] v"

text \<open>
  \<open>JSON.parse\<close> on the strings, arrays and objects of the JSON grammar (RFC 8259):
  whitespace between tokens, strings with their escapes, no trailing commas, nothing but
  whitespace after the value. Numbers and the literals \<open>true\<close>, \<open>false\<close>, \<open>null\<close> are
  not accepted: the generators never write them. A text this parser accepts is valid
  JSON; \<open>None\<close> is the \<open>SyntaxError\<close>.
\<close>

definition isWs :: "char \<Rightarrow> bool" where
  "isWs c = (c = CHR '' '' \<or> c = CHR 0x09 \<or> c = CHR 0x0A \<or> c = CHR 0x0D)"

definition hexValue :: "char \<Rightarrow> nat option" where
  "hexValue c =
     (let n = (of_char c :: nat) in
      if 48 \<le> n \<and> n \<le> 57 then Some (n - 48)
      else if 97 \<le> n \<and> n \<le> 102 then Some (n - 87)
      else if 65 \<le> n \<and> n \<le> 70 then Some (n - 55)
      else None)"

definition unescape :: "char \<Rightarrow> char option" where
  "unescape e =
     (if e = CHR 0x22 then Some (CHR 0x22)
      else if e = CHR 0x5C then Some (CHR 0x5C)
      else if e = CHR ''/'' then Some (CHR ''/'')
      else if e = CHR ''b'' then Some (CHR 0x08)
      else if e = CHR ''f'' then Some (CHR 0x0C)
      else if e = CHR ''n'' then Some (CHR 0x0A)
      else if e = CHR ''r'' then Some (CHR 0x0D)
      else if e = CHR ''t'' then Some (CHR 0x09)
      else None)"

text \<open>
  The characters of a string after its opening quote, up to the closing quote. A \<open>\u\<close>
  escape above 255 has no \<open>char\<close> to stand for it and is refused.
\<close>

fun parseStringBody :: "string \<Rightarrow> (string \<times> string) option" where
  "parseStringBody [] = None"
| "parseStringBody (c # cs) =
     (if c = CHR 0x22 then Some ([], cs)
      else if c = CHR 0x5C then
        (case cs of
           [] \<Rightarrow> None
         | e # r \<Rightarrow>
             if e = CHR ''u'' then
               (case r of
                  h1 # h2 # h3 # h4 # r' \<Rightarrow>
                    (case (hexValue h1, hexValue h2, hexValue h3, hexValue h4) of
                       (Some a, Some b, Some c', Some d) \<Rightarrow>
                         (let n = ((a * 16 + b) * 16 + c') * 16 + d in
                          if n < 256
                          then (case parseStringBody r' of
                                  None \<Rightarrow> None
                                | Some (s, rest) \<Rightarrow> Some (char_of n # s, rest))
                          else None)
                     | _ \<Rightarrow> None)
                | _ \<Rightarrow> None)
             else
               (case unescape e of
                  None \<Rightarrow> None
                | Some x \<Rightarrow>
                    (case parseStringBody r of
                       None \<Rightarrow> None
                     | Some (s, rest) \<Rightarrow> Some (x # s, rest))))
      else if (of_char c :: nat) < 0x20 then None
      else (case parseStringBody cs of
              None \<Rightarrow> None
            | Some (s, rest) \<Rightarrow> Some (c # s, rest)))"

fun parseColon :: "string \<Rightarrow> string option" where
  "parseColon [] = None"
| "parseColon (c # cs) =
     (if isWs c then parseColon cs else if c = CHR '':'' then Some cs else None)"

text \<open>Both consume input; the recursive descent below terminates on that.\<close>

lemma parseStringBody_shorter: "parseStringBody s = Some (x, r) \<Longrightarrow> length r < length s"
proof (induction s arbitrary: x r rule: parseStringBody.induct)
  case 1
  then show ?case by simp
next
  case (2 c cs)
  then show ?case
    by (fastforce simp: Let_def split: if_splits list.splits option.splits prod.splits)
qed

lemma parseColon_shorter: "parseColon s = Some r \<Longrightarrow> length r < length s"
  by (induction s) (auto split: if_splits)

text \<open>
  The recursive descent. Each function returns what it read and the rest of the input.
  The tests \<open>length r < length s\<close> after a nested value make the recursion well-founded;
  they always succeed (\<open>parse_shorter\<close> below).
\<close>

function parseValue :: "string \<Rightarrow> (json \<times> string) option"
  and parseArray :: "string \<Rightarrow> (json list \<times> string) option"
  and parseElements :: "string \<Rightarrow> (json list \<times> string) option"
  and parseElementsTail :: "string \<Rightarrow> (json list \<times> string) option"
  and parseObject :: "string \<Rightarrow> ((string \<times> json) list \<times> string) option"
  and parseMembers :: "string \<Rightarrow> ((string \<times> json) list \<times> string) option"
  and parseMembersTail :: "string \<Rightarrow> ((string \<times> json) list \<times> string) option"
where
  "parseValue [] = None"
| "parseValue (c # cs) =
     (if isWs c then parseValue cs
      else if c = CHR 0x22 then
        (case parseStringBody cs of None \<Rightarrow> None | Some (s, r) \<Rightarrow> Some (JString s, r))
      else if c = CHR ''['' then
        (case parseArray cs of None \<Rightarrow> None | Some (vs, r) \<Rightarrow> Some (JArray vs, r))
      else if c = CHR ''{'' then
        (case parseObject cs of None \<Rightarrow> None | Some (kvs, r) \<Rightarrow> Some (JObject kvs, r))
      else None)"
| "parseArray [] = None"
| "parseArray (c # cs) =
     (if isWs c then parseArray cs
      else if c = CHR '']'' then Some ([], cs)
      else parseElements (c # cs))"
| "parseElements s =
     (case parseValue s of
        None \<Rightarrow> None
      | Some (v, r) \<Rightarrow>
          if length r < length s
          then (case parseElementsTail r of None \<Rightarrow> None | Some (vs, r') \<Rightarrow> Some (v # vs, r'))
          else None)"
| "parseElementsTail [] = None"
| "parseElementsTail (c # cs) =
     (if isWs c then parseElementsTail cs
      else if c = CHR '','' then parseElements cs
      else if c = CHR '']'' then Some ([], cs)
      else None)"
| "parseObject [] = None"
| "parseObject (c # cs) =
     (if isWs c then parseObject cs
      else if c = CHR ''}'' then Some ([], cs)
      else parseMembers (c # cs))"
| "parseMembers [] = None"
| "parseMembers (c # cs) =
     (if isWs c then parseMembers cs
      else if c = CHR 0x22 then
        (case parseStringBody cs of
           None \<Rightarrow> None
         | Some (k, r) \<Rightarrow>
             (case parseColon r of
                None \<Rightarrow> None
              | Some r' \<Rightarrow>
                  (case parseValue r' of
                     None \<Rightarrow> None
                   | Some (v, r'') \<Rightarrow>
                       if length r'' < length r'
                       then (case parseMembersTail r'' of
                               None \<Rightarrow> None
                             | Some (kvs, rest) \<Rightarrow> Some ((k, v) # kvs, rest))
                       else None)))
      else None)"
| "parseMembersTail [] = None"
| "parseMembersTail (c # cs) =
     (if isWs c then parseMembersTail cs
      else if c = CHR '','' then parseMembers cs
      else if c = CHR ''}'' then Some ([], cs)
      else None)"
  by pat_completeness auto
termination
  apply (relation "measures [\<lambda>x. case x of
        Inl (Inl s) \<Rightarrow> length s
      | Inl (Inr (Inl s)) \<Rightarrow> length s
      | Inl (Inr (Inr s)) \<Rightarrow> length s
      | Inr (Inl (Inl s)) \<Rightarrow> length s
      | Inr (Inl (Inr s)) \<Rightarrow> length s
      | Inr (Inr (Inl s)) \<Rightarrow> length s
      | Inr (Inr (Inr s)) \<Rightarrow> length s,
     \<lambda>x. case x of
        Inl (Inl s) \<Rightarrow> 0
      | Inl (Inr (Inl s)) \<Rightarrow> 2
      | Inl (Inr (Inr s)) \<Rightarrow> 1
      | Inr (Inl (Inl s)) \<Rightarrow> 0
      | Inr (Inl (Inr s)) \<Rightarrow> 2
      | Inr (Inr (Inl s)) \<Rightarrow> 0
      | Inr (Inr (Inr s)) \<Rightarrow> (0::nat)]")
  apply (auto dest!: parseStringBody_shorter parseColon_shorter)
  done

definition JSON_parse :: "string \<Rightarrow> json option" where
  "JSON_parse text =
     (case parseValue text of
        None \<Rightarrow> None
      | Some (v, rest) \<Rightarrow> if list_all isWs rest then Some v else None)"

section \<open>Structured data generators (src/seo/structured-data.ts)\<close>

text \<open>
  The input records of \<open>types.ts\<close> (\<open>PersonData\<close> is declared with the configuration
  above). Field names are the source's; where two records share a name the field is
  written with its record, as in \<open>ExperienceData.description\<close>.
\<close>

record ExperienceData =
  company :: string
  role :: string
  description :: string
  startDate :: string
  endDate :: "string option"
  location :: string
  skills :: "string list option"
  companyUrl :: "string option"

record ProjectData =
  name :: string
  description :: string
  url :: "string option"
  technologies :: "string list"
  dateCreated :: "string option"
  datePublished :: "string option"

record EducationData =
  institution :: string
  degree :: string
  field :: string
  startDate :: string
  endDate :: string
  gpa :: "string option"
  location :: "string option"

text \<open>
  The object \<open>schema\<close> of \<open>generatePersonSchema\<close> when it is serialised: the literal,
  then the two conditional assignments.
\<close>

definition personSchemaObject :: "PersonData \<Rightarrow> string \<Rightarrow> json" where
  "personSchemaObject data siteUrl =
     (let schema =
            [(''@context'', JString ''https://schema.org''),
             (''@type'', JString ''Person''),
             (''name'', JString (PersonData.name data)),
             (''jobTitle'', JString (jobTitle data)),
             (''url'', JString siteUrl),
             (''email'', JString (email data)),
             (''telephone'', JString (phone data)),
             (''address'',
                JObject
                  [(''@type'', JString ''PostalAddress''),
                   (''addressLocality'', JString (city (PersonData.location data))),
                   (''addressRegion'', JString (region (PersonData.location data))),
                   (''addressCountry'', JString (country (PersonData.location data)))]),
             (''sameAs'',
                JArray
                  [JString (github (socialProfiles data)),
                   JString (linkedin (socialProfiles data))])];
          schema = (if truthy (image data)
                    then setProperty ''image'' (JString (the (image data))) schema
                    else schema);
          schema = (if truthy (bio data)
                    then setProperty ''description'' (JString (the (bio data))) schema
                    else schema)
      in JObject schema)"

definition generatePersonSchema :: "PersonData \<Rightarrow> string \<Rightarrow> string" where
  "generatePersonSchema data siteUrl = JSON_stringify (personSchemaObject data siteUrl)"

text \<open>The callback of \<open>experiences.map\<close>.\<close>

definition workExperienceSchemaObject :: "ExperienceData \<Rightarrow> json" where
  "workExperienceSchemaObject exp =
     (let schema =
            [(''@context'', JString ''https://schema.org''),
             (''@type'', JString ''WorkExperience''),
             (''name'', JString (role exp)),
             (''description'', JString (ExperienceData.description exp)),
             (''startDate'', JString (ExperienceData.startDate exp)),
             (''employer'',
                JObject
                  [(''@type'', JString ''Organization''),
                   (''name'', JString (company exp))])];
          schema = (if truthy (ExperienceData.endDate exp)
                    then setProperty ''endDate'' (JString (the (ExperienceData.endDate exp))) schema
                    else schema);
          schema = (if truthy (companyUrl exp)
                    then setNestedProperty ''employer'' ''url'' (JString (the (companyUrl exp))) schema
                    else schema);
          schema = (if ExperienceData.location exp \<noteq> []
                    then setProperty ''location'' (JString (ExperienceData.location exp)) schema
                    else schema);
          schema = (case skills exp of
                      None \<Rightarrow> schema
                    | Some sk \<Rightarrow>
                        if 0 < length sk
                        then setProperty ''skills'' (JArray (map JString sk)) schema
                        else schema)
      in JObject schema)"

definition generateWorkExperienceSchema :: "ExperienceData list \<Rightarrow> string" where
  "generateWorkExperienceSchema experiences =
     (let schemas = map workExperienceSchemaObject experiences
      in JSON_stringify (JArray schemas))"

text \<open>The callback of \<open>projects.map\<close>.\<close>

definition creativeWorkSchemaObject :: "string \<Rightarrow> ProjectData \<Rightarrow> json" where
  "creativeWorkSchemaObject authorName project =
     (let schema =
            [(''@context'', JString ''https://schema.org''),
             (''@type'', JString ''CreativeWork''),
             (''name'', JString (ProjectData.name project)),
             (''description'', JString (ProjectData.description project)),
             (''author'',
                JObject
                  [(''@type'', JString ''Person''),
                   (''name'', JString authorName)])];
          schema = (if truthy (ProjectData.url project)
                    then setProperty ''url'' (JString (the (ProjectData.url project))) schema
                    else schema);
          schema = (if truthy (dateCreated project)
                    then setProperty ''dateCreated'' (JString (the (dateCreated project))) schema
                    else schema);
          schema = (if truthy (datePublished project)
                    then setProperty ''datePublished'' (JString (the (datePublished project))) schema
                    else schema);
          schema = (if 0 < length (technologies project)
                    then setProperty ''keywords'' (JArray (map JString (technologies project))) schema
                    else schema)
      in JObject schema)"

definition generateCreativeWorkSchema :: "ProjectData list \<Rightarrow> string \<Rightarrow> string" where
  "generateCreativeWorkSchema projects authorName =
     (let schemas = map (creativeWorkSchemaObject authorName) projects
      in JSON_stringify (JArray schemas))"

text \<open>The callback of \<open>education.map\<close>.\<close>

definition educationSchemaObject :: "EducationData \<Rightarrow> json" where
  "educationSchemaObject edu =
     (let schema =
            [(''@context'', JString ''https://schema.org''),
             (''@type'', JString ''EducationalOccupationalCredential''),
             (''name'', JString (degree edu @ '' in '' @ field edu)),
             (''recognizedBy'',
                JObject
                  [(''@type'', JString ''Organization''),
                   (''name'', JString (institution edu))])];
          schema = (if degree edu \<noteq> []
                    then setProperty ''credentialCategory'' (JString (field edu))
                           (setProperty ''educationalLevel'' (JString (degree edu)) schema)
                    else schema);
          schema = (if EducationData.startDate edu \<noteq> []
                    then setProperty ''startDate'' (JString (EducationData.startDate edu)) schema
                    else schema);
          schema = (if EducationData.endDate edu \<noteq> []
                    then setProperty ''endDate'' (JString (EducationData.endDate edu)) schema
                    else schema);
          schema = (if truthy (gpa edu)
                    then setProperty ''grade'' (JString (the (gpa edu))) schema
                    else schema);
          descriptionParts = [];
          descriptionParts = (if degree edu \<noteq> [] \<and> field edu \<noteq> []
                              then descriptionParts @ [degree edu @ '' in '' @ field edu]
                              else descriptionParts);
          descriptionParts = (if institution edu \<noteq> []
                              then descriptionParts @ [''from '' @ institution edu]
                              else descriptionParts);
          descriptionParts = (if truthy (EducationData.location edu)
                              then descriptionParts @ [''('' @ the (EducationData.location edu) @ '')'']
                              else descriptionParts);
          schema = (if 0 < length descriptionParts
                    then setProperty ''description'' (JString (join '' '' descriptionParts)) schema
                    else schema)
      in JObject schema)"

definition generateEducationSchema :: "EducationData list \<Rightarrow> string" where
  "generateEducationSchema education =
     (let schemas = map educationSchemaObject education
      in JSON_stringify (JArray schemas))"

text \<open>
  What the claim asks of an emitted object: \<open>@context\<close> is \<open>https://schema.org\<close> and
  \<open>@type\<close> is one of the four fixed literals.
\<close>

definition schemaTypes :: "string list" where
  "schemaTypes =
     [''Person'', ''WorkExperience'', ''CreativeWork'', ''EducationalOccupationalCredential'']"

definition property :: "json \<Rightarrow> string \<Rightarrow> json option" where
  "property v key = (case v of JObject props \<Rightarrow> getProperty props key | _ \<Rightarrow> None)"

definition isSchemaObject :: "json \<Rightarrow> bool" where
  "isSchemaObject v =
     (property v ''@context'' = Some (JString ''https://schema.org'') \<and>
      (case property v ''@type'' of Some (JString t) \<Rightarrow> t \<in> set schemaTypes | _ \<Rightarrow> False))"

definition isObject :: "json \<Rightarrow> bool" where
  "isObject v = (case v of JObject props \<Rightarrow> True | _ \<Rightarrow> False)"

text \<open>An input used to evaluate the serialiser.\<close>

definition exampleExperience :: ExperienceData where
  \<open>exampleExperience =
     \<lparr>company = ''ACME'', role = ''Dev'', description = ''Say "hi"'',
      startDate = ''2026-01'', endDate = None, location = ''Remote'',
      skills = Some [''A'', ''B''], companyUrl = Some ''https://acme.example''\<rparr>\<close>

section \<open>Counting occurrences\<close>

lemma countOcc_skip:
  "a \<notin> set xs \<Longrightarrow> countOcc (a # p) (xs @ ys) = countOcc (a # p) ys"
  by (induction xs) auto

lemma escapeXml_xmlEntity: "escapeXml s = concat (map xmlEntity s)"
  by (induction s) (auto simp: escapeXml_def replaceAll_def xmlEntity_def)

lemma escapeXml_Cons: "escapeXml (c # cs) = xmlEntity c @ escapeXml cs"
  by (simp add: escapeXml_xmlEntity)

lemma escapeXml_Nil: "escapeXml [] = []"
  by (simp add: escapeXml_xmlEntity)

lemma lt_notin_escapeXml: "CHR ''<'' \<notin> set (escapeXml s)"
  by (auto simp: escapeXml_xmlEntity xmlEntity_def split: if_splits)

lemma lt_notin_changefreq: "CHR ''<'' \<notin> set (changefreqString c)"
  by (cases c) auto

lemma body_count_Suc:
  assumes step: "\<And>u rest. u \<in> set urls \<Longrightarrow> countOcc p (g u @ rest) = Suc (countOcc p rest)"
      and nl: "\<And>rest. countOcc p (CHR ''\<newline>'' # rest) = countOcc p rest"
  shows "countOcc p (join ''\<newline>'' (map g urls) @ rest) = length urls + countOcc p rest"
  using step
proof (induction urls)
  case Nil
  then show ?case by simp
next
  case (Cons u us)
  then show ?case by (cases us) (simp_all add: nl del: countOcc.simps)
qed

lemma body_count_0:
  assumes step: "\<And>u rest. u \<in> set urls \<Longrightarrow> countOcc p (g u @ rest) = countOcc p rest"
      and nl: "\<And>rest. countOcc p (CHR ''\<newline>'' # rest) = countOcc p rest"
  shows "countOcc p (join ''\<newline>'' (map g urls) @ rest) = countOcc p rest"
  using step
proof (induction urls)
  case Nil
  then show ?case by simp
next
  case (Cons u us)
  then show ?case by (cases us) (simp_all add: nl del: countOcc.simps)
qed

lemmas entry_simps = urlEntry_def countOcc_skip lt_notin_escapeXml lt_notin_changefreq

lemma entry_counts:
  assumes "CHR ''<'' \<notin> set (lastmod u)" "CHR ''<'' \<notin> set (f (priority u))"
  shows "countOcc ''<url>'' (urlEntry f u @ rest) = Suc (countOcc ''<url>'' rest)"
    and "countOcc ''</url>'' (urlEntry f u @ rest) = Suc (countOcc ''</url>'' rest)"
    and "countOcc ''<loc>'' (urlEntry f u @ rest) = Suc (countOcc ''<loc>'' rest)"
    and "countOcc ''</loc>'' (urlEntry f u @ rest) = Suc (countOcc ''</loc>'' rest)"
    and "countOcc ''<lastmod>'' (urlEntry f u @ rest) = Suc (countOcc ''<lastmod>'' rest)"
    and "countOcc ''</lastmod>'' (urlEntry f u @ rest) = Suc (countOcc ''</lastmod>'' rest)"
    and "countOcc ''<changefreq>'' (urlEntry f u @ rest) = Suc (countOcc ''<changefreq>'' rest)"
    and "countOcc ''</changefreq>'' (urlEntry f u @ rest) = Suc (countOcc ''</changefreq>'' rest)"
    and "countOcc ''<priority>'' (urlEntry f u @ rest) = Suc (countOcc ''<priority>'' rest)"
    and "countOcc ''</priority>'' (urlEntry f u @ rest) = Suc (countOcc ''</priority>'' rest)"
    and "countOcc ''<urlset'' (urlEntry f u @ rest) = countOcc ''<urlset'' rest"
    and "countOcc ''</urlset>'' (urlEntry f u @ rest) = countOcc ''</urlset>'' rest"
    and "countOcc ''<?xml'' (urlEntry f u @ rest) = countOcc ''<?xml'' rest"
  using assms by (simp_all add: entry_simps)

lemma sitemap_count_Suc:
  assumes ok: "\<forall>u\<in>set urls. CHR ''<'' \<notin> set (lastmod u) \<and> CHR ''<'' \<notin> set (f (priority u))"
    and step: "\<And>u rest. CHR ''<'' \<notin> set (lastmod u) \<Longrightarrow> CHR ''<'' \<notin> set (f (priority u)) \<Longrightarrow> countOcc p (urlEntry f u @ rest) = Suc (countOcc p rest)"
    and nl: "\<And>rest. countOcc p (CHR ''\<newline>'' # rest) = countOcc p rest"
    and hd: "\<And>rest. countOcc p (sitemapHeader @ rest) = countOcc p rest"
    and ft: "countOcc p sitemapFooter = 0"
  shows "countOcc p (generateSitemap f urls) = length urls"
proof -
  have "countOcc p (join ''\<newline>'' (map (urlEntry f) urls) @ sitemapFooter) = length urls + countOcc p sitemapFooter"
    by (rule body_count_Suc) (use ok step nl in auto)
  then show ?thesis by (simp add: generateSitemap_def hd ft)
qed

lemma sitemap_tag_counts:
  assumes ok: "\<forall>u\<in>set urls. CHR ''<'' \<notin> set (lastmod u) \<and> CHR ''<'' \<notin> set (f (priority u))"
  shows "countOcc ''<url>'' (generateSitemap f urls) = length urls"
    and "countOcc ''</url>'' (generateSitemap f urls) = length urls"
    and "countOcc ''<loc>'' (generateSitemap f urls) = length urls"
    and "countOcc ''</loc>'' (generateSitemap f urls) = length urls"
    and "countOcc ''<lastmod>'' (generateSitemap f urls) = length urls"
    and "countOcc ''</lastmod>'' (generateSitemap f urls) = length urls"
    and "countOcc ''<changefreq>'' (generateSitemap f urls) = length urls"
    and "countOcc ''</changefreq>'' (generateSitemap f urls) = length urls"
    and "countOcc ''<priority>'' (generateSitemap f urls) = length urls"
    and "countOcc ''</priority>'' (generateSitemap f urls) = length urls"
proof -
  show "countOcc ''<url>'' (generateSitemap f urls) = length urls"
    by (rule sitemap_count_Suc[OF ok entry_counts(1)]) (simp_all add: sitemapHeader_def sitemapFooter_def)
  show "countOcc ''</url>'' (generateSitemap f urls) = length urls"
    by (rule sitemap_count_Suc[OF ok entry_counts(2)]) (simp_all add: sitemapHeader_def sitemapFooter_def)
  show "countOcc ''<loc>'' (generateSitemap f urls) = length urls"
    by (rule sitemap_count_Suc[OF ok entry_counts(3)]) (simp_all add: sitemapHeader_def sitemapFooter_def)
  show "countOcc ''</loc>'' (generateSitemap f urls) = length urls"
    by (rule sitemap_count_Suc[OF ok entry_counts(4)]) (simp_all add: sitemapHeader_def sitemapFooter_def)
  show "countOcc ''<lastmod>'' (generateSitemap f urls) = length urls"
    by (rule sitemap_count_Suc[OF ok entry_counts(5)]) (simp_all add: sitemapHeader_def sitemapFooter_def)
  show "countOcc ''</lastmod>'' (generateSitemap f urls) = length urls"
    by (rule sitemap_count_Suc[OF ok entry_counts(6)]) (simp_all add: sitemapHeader_def sitemapFooter_def)
  show "countOcc ''<changefreq>'' (generateSitemap f urls) = length urls"
    by (rule sitemap_count_Suc[OF ok entry_counts(7)]) (simp_all add: sitemapHeader_def sitemapFooter_def)
  show "countOcc ''</changefreq>'' (generateSitemap f urls) = length urls"
    by (rule sitemap_count_Suc[OF ok entry_counts(8)]) (simp_all add: sitemapHeader_def sitemapFooter_def)
  show "countOcc ''<priority>'' (generateSitemap f urls) = length urls"
    by (rule sitemap_count_Suc[OF ok entry_counts(9)]) (simp_all add: sitemapHeader_def sitemapFooter_def)
  show "countOcc ''</priority>'' (generateSitemap f urls) = length urls"
    by (rule sitemap_count_Suc[OF ok entry_counts(10)]) (simp_all add: sitemapHeader_def sitemapFooter_def)
qed

lemma sitemap_wrapper_counts:
  assumes ok: "\<forall>u\<in>set urls. CHR ''<'' \<notin> set (lastmod u) \<and> CHR ''<'' \<notin> set (f (priority u))"
  shows "countOcc ''<urlset'' (generateSitemap f urls) = 1"
    and "countOcc ''</urlset>'' (generateSitemap f urls) = 1"
    and "countOcc ''<?xml'' (generateSitemap f urls) = 1"
proof -
  have b: "\<And>p rest. (\<And>u rest. CHR ''<'' \<notin> set (lastmod u) \<Longrightarrow> CHR ''<'' \<notin> set (f (priority u)) \<Longrightarrow>
               countOcc (CHR ''<'' # p) (urlEntry f u @ rest) = countOcc (CHR ''<'' # p) rest) \<Longrightarrow>
       countOcc (CHR ''<'' # p) (join ''\<newline>'' (map (urlEntry f) urls) @ rest) = countOcc (CHR ''<'' # p) rest"
    by (rule body_count_0) (use ok in auto)
  show "countOcc ''<urlset'' (generateSitemap f urls) = 1"
    by (simp add: generateSitemap_def sitemapHeader_def sitemapFooter_def b[OF entry_counts(11)])
  show "countOcc ''</urlset>'' (generateSitemap f urls) = 1"
    by (simp add: generateSitemap_def sitemapHeader_def sitemapFooter_def b[OF entry_counts(12)])
  show "countOcc ''<?xml'' (generateSitemap f urls) = 1"
    by (simp add: generateSitemap_def sitemapHeader_def sitemapFooter_def b[OF entry_counts(13)])
qed

lemma xml_plain_skip:
  "list_all plainChar xs \<Longrightarrow> foldl xmlStep (XText (e # st) n) xs = XText (e # st) n"
  by (induction xs) (auto simp: plainChar_def)

lemma iso_plain: "iso8601Text s \<Longrightarrow> list_all plainChar s"
proof -
  have "list_all plainChar ''0123456789-:.,+TZW''"
    by (simp add: plainChar_def xmlChar_def)
  then have "\<And>c. c \<in> set ''0123456789-:.,+TZW'' \<Longrightarrow> plainChar c"
    unfolding list_all_iff by blast
  then show "iso8601Text s \<Longrightarrow> list_all plainChar s"
    unfolding iso8601Text_def list_all_iff by blast
qed

lemma number_plain: "numberText s \<Longrightarrow> list_all plainChar s"
proof -
  have "list_all plainChar ''0123456789.-+eNaInfity''"
    by (simp add: plainChar_def xmlChar_def)
  then have "\<And>c. c \<in> set ''0123456789.-+eNaInfity'' \<Longrightarrow> plainChar c"
    unfolding list_all_iff by blast
  then show "numberText s \<Longrightarrow> list_all plainChar s"
    unfolding numberText_def list_all_iff by blast
qed

lemma changefreq_plain: "list_all plainChar (changefreqString c)"
  by (cases c) (simp_all add: plainChar_def xmlChar_def)

lemma asciiLetter_simps:
  "asciiLetter (CHR ''a'')" "asciiLetter (CHR ''m'')" "asciiLetter (CHR ''p'')" "asciiLetter (CHR ''l'')"
  "asciiLetter (CHR ''t'')" "asciiLetter (CHR ''g'')" "asciiLetter (CHR ''q'')" "asciiLetter (CHR ''u'')"
  "asciiLetter (CHR ''o'')" "asciiLetter (CHR ''s'')" "\<not> asciiLetter (CHR '';'')"
  by (simp_all add: asciiLetter_def)

lemma xml_entity_skip:
  "xmlChar c \<Longrightarrow> foldl xmlStep (XText (e # st) n) (xmlEntity c) = XText (e # st) n"
  by (simp add: xmlEntity_def asciiLetter_simps)

lemma xml_escaped_skip:
  "list_all xmlChar s \<Longrightarrow> foldl xmlStep (XText (e # st) n) (escapeXml s) = XText (e # st) n"
  by (induction s) (simp_all add: escapeXml_Cons escapeXml_Nil xml_entity_skip)

lemma plain_no_lt: "list_all plainChar s \<Longrightarrow> CHR ''<'' \<notin> set s"
  by (auto simp: list_all_iff plainChar_def)

lemma nameChar_simps:
  "nameChar (CHR ''u'')" "nameChar (CHR ''r'')" "nameChar (CHR ''l'')" "nameChar (CHR ''s'')"
  "nameChar (CHR ''e'')" "nameChar (CHR ''t'')" "nameChar (CHR ''o'')" "nameChar (CHR ''c'')"
  "nameChar (CHR ''a'')" "nameChar (CHR ''m'')" "nameChar (CHR ''d'')" "nameChar (CHR ''h'')"
  "nameChar (CHR ''n'')" "nameChar (CHR ''g'')" "nameChar (CHR ''f'')" "nameChar (CHR ''q'')"
  "nameChar (CHR ''p'')" "nameChar (CHR ''i'')" "nameChar (CHR ''y'')" "nameChar (CHR ''x'')"
  "\<not> nameChar (CHR '' '')" "\<not> nameChar (CHR ''='')"
  "nameStartChar (CHR ''u'')" "nameStartChar (CHR ''l'')" "nameStartChar (CHR ''c'')"
  "nameStartChar (CHR ''p'')" "nameStartChar (CHR ''x'')"
  by (simp_all add: nameChar_def nameStartChar_def asciiLetter_def)

lemma xmlChar_simps:
  "xmlChar (CHR ''\<newline>'')" "xmlChar (CHR '' '')" "xmlChar (CHR ''/'')"
  "xmlSpace (CHR ''\<newline>'')" "xmlSpace (CHR '' '')"
  by (simp_all add: xmlChar_def xmlSpace_def)

lemma xml_entry:
  assumes "sitemapContract f u" "list_all xmlChar (loc u)"
  shows "foldl xmlStep (XText (''urlset'' # st) n) (urlEntry f u) = XText (''urlset'' # st) n"
  using assms iso_plain[of "lastmod u"] number_plain[of "f (priority u)"]
  by (simp add: urlEntry_def sitemapContract_def xml_plain_skip xml_escaped_skip changefreq_plain
      xmlTag_def xmlName_def nameChar_simps xmlChar_simps xmlChar_def)

lemma xml_body:
  assumes "list_all (sitemapContract f) urls" "list_all (\<lambda>u. list_all xmlChar (loc u)) urls"
  shows "foldl xmlStep (XText (''urlset'' # st) n) (join ''\<newline>'' (map (urlEntry f) urls)) =
         XText (''urlset'' # st) n"
  using assms
proof (induction urls)
  case Nil
  then show ?case by simp
next
  case (Cons u us)
  then show ?case by (cases us) (simp_all add: xml_entry xmlChar_simps)
qed

lemma stripPrefix_append: "stripPrefix p (p @ s) = Some s"
  by (induction p) simp_all

lemma xml_sitemap:
  assumes "list_all (sitemapContract f) urls" "list_all (\<lambda>u. list_all xmlChar (loc u)) urls"
  shows "wellFormedXml (generateSitemap f urls)"
proof -
  have d: "stripPrefix xmlDeclaration (generateSitemap f urls) =
      Some (''\<newline><urlset xmlns=\"http://www.sitemaps.org/schemas/sitemap/0.9\">\<newline>'' @
            join ''\<newline>'' (map (urlEntry f) urls) @ sitemapFooter)"
    using stripPrefix_append[of xmlDeclaration]
    by (simp add: generateSitemap_def sitemapHeader_def xmlDeclaration_def del: stripPrefix.simps)
  have o: "foldl xmlStep (XText [] 0)
      ''\<newline><urlset xmlns=\"http://www.sitemaps.org/schemas/sitemap/0.9\">\<newline>'' = XText [''urlset''] 1"
    by (simp add: xmlTag_def xmlName_def nameChar_simps xmlChar_simps xmlChar_def attValueChar_def)
  have c: "foldl xmlStep (XText [''urlset''] 1) sitemapFooter = XText [] 1"
    by (simp add: sitemapFooter_def xmlTag_def xmlName_def nameChar_simps xmlChar_simps xmlChar_def)
  show ?thesis
    unfolding wellFormedXml_def d
    by (simp only: Let_def option.case foldl_append o xml_body[OF assms] c)
qed

subsection \<open>Sitemap: element counts\<close>

text \<open>
  C1. The claim is read in the contract of \<open>SitemapURL\<close>: \<open>lastmod\<close> is an ISO 8601
  date, \<open>changefreq\<close> one of the seven values, \<open>priority\<close> a number. For every input
  array of such entries, the document returned by \<open>generateSitemap\<close> has exactly
  \<open>length urls\<close> opening and closing tags of each of \<open>url\<close>, \<open>loc\<close>, \<open>lastmod\<close>,
  \<open>changefreq\<close>, \<open>priority\<close>, exactly one \<open><urlset\<close> opening tag, one \<open></urlset>\<close>
  and one XML declaration; it is the declaration line, the \<open>urlset\<close> opening tag with
  the sitemap-protocol namespace, the entries, and the closing \<open></urlset>\<close>; and it is
  well-formed, with \<open>urlset\<close> the single top-level element, whenever no \<open>loc\<close> holds a
  character that XML forbids (a control character other than tab, line feed and
  carriage return, which no URL holds).
\<close>

theorem generateSitemap_element_counts:
  assumes ok': "list_all (sitemapContract numberToString) urls"
  shows \<open>(\<forall>tag \<in> {''url'', ''loc'', ''lastmod'', ''changefreq'', ''priority''}.
            elementCount tag (generateSitemap numberToString urls) = length urls \<and>
            closingCount tag (generateSitemap numberToString urls) = length urls) \<and>
         countOcc ''<urlset'' (generateSitemap numberToString urls) = 1 \<and>
         countOcc ''</urlset>'' (generateSitemap numberToString urls) = 1 \<and>
         countOcc ''<?xml'' (generateSitemap numberToString urls) = 1 \<and>
         (list_all (\<lambda>u. list_all xmlChar (loc u)) urls \<longrightarrow>
            wellFormedXml (generateSitemap numberToString urls)) \<and>
         generateSitemap numberToString urls =
           ''<?xml version="1.0" encoding="UTF-8"?>\<newline>'' @
           ''<urlset xmlns="http://www.sitemaps.org/schemas/sitemap/0.9">\<newline>'' @
           join ''\<newline>'' (map (urlEntry numberToString) urls) @ ''\<newline></urlset>''\<close>
proof -
  have ok: "\<forall>u\<in>set urls. CHR ''<'' \<notin> set (lastmod u) \<and> CHR ''<'' \<notin> set (numberToString (priority u))"
    using ok' by (auto simp: list_all_iff sitemapContract_def dest: iso_plain number_plain plain_no_lt)
  have "generateSitemap numberToString urls =
           sitemapHeader @ join ''\<newline>'' (map (urlEntry numberToString) urls) @ sitemapFooter"
    by (simp add: generateSitemap_def)
  then show ?thesis
    using sitemap_tag_counts[OF ok] sitemap_wrapper_counts[OF ok] xml_sitemap[OF ok']
    by (simp add: elementCount_def closingCount_def sitemapHeader_def sitemapFooter_def del: countOcc.simps)
qed

text \<open>The theorem at a two-entry sitemap.\<close>

theorem generateSitemap_element_counts_witness:
  "list_all (sitemapContract tenthsToString) exampleUrls \<and>
   list_all (\<lambda>u. list_all xmlChar (loc u)) exampleUrls \<and>
   elementCount ''loc'' (generateSitemap tenthsToString exampleUrls) = 2 \<and>
   closingCount ''priority'' (generateSitemap tenthsToString exampleUrls) = 2 \<and>
   countOcc ''<urlset'' (generateSitemap tenthsToString exampleUrls) = 1 \<and>
   wellFormedXml (generateSitemap tenthsToString exampleUrls)"
proof -
  have h: "list_all (sitemapContract tenthsToString) exampleUrls"
    by (simp add: exampleUrls_def tenthsToString_def sitemapContract_def iso8601Text_def numberText_def)
  have x: "list_all (\<lambda>u. list_all xmlChar (loc u)) exampleUrls"
    by (simp add: exampleUrls_def xmlChar_def)
  have l: "length exampleUrls = 2" by (simp add: exampleUrls_def)
  note t = generateSitemap_element_counts[OF h]
  from t[THEN conjunct1] l
  have "elementCount ''loc'' (generateSitemap tenthsToString exampleUrls) = 2"
    and "closingCount ''priority'' (generateSitemap tenthsToString exampleUrls) = 2"
    by simp_all
  moreover have "countOcc ''<urlset'' (generateSitemap tenthsToString exampleUrls) = 1"
    by (rule t[THEN conjunct2, THEN conjunct1])
  moreover have "wellFormedXml (generateSitemap tenthsToString exampleUrls)"
    by (rule t[THEN conjunct2, THEN conjunct2, THEN conjunct2, THEN conjunct2, THEN conjunct1,
        THEN mp, OF x])
  ultimately show ?thesis using h x by blast
qed

section \<open>robots.txt\<close>

text \<open>
  C5. For every \<open>sitemapUrl\<close>, \<open>generateRobotsTxt sitemapUrl\<close> is exactly the text
  \<open>User-agent: *\<close>, newline, \<open>Allow: /\<close>, newline, newline, \<open>Sitemap: \<close> followed by
  \<open>sitemapUrl\<close>: the directives come in the order User-agent, Allow, Sitemap. The result is
  a function of the argument alone (the right-hand side mentions nothing else), so two
  calls with the same input give the same text. The last conjunct is the spec's example.
\<close>

theorem generateRobotsTxt_exact:
  "generateRobotsTxt sitemapUrl = ''User-agent: *\<newline>Allow: /\<newline>\<newline>Sitemap: '' @ sitemapUrl \<and>
   generateRobotsTxt sitemapUrl =
     ''User-agent: *'' @ ''\<newline>'' @ ''Allow: /'' @ ''\<newline>\<newline>'' @ ''Sitemap: '' @ sitemapUrl \<and>
   generateRobotsTxt ''https://sandeepkommineni.me/sitemap.xml'' =
     ''User-agent: *\<newline>Allow: /\<newline>\<newline>Sitemap: https://sandeepkommineni.me/sitemap.xml''"
  by (simp add: generateRobotsTxt_def)

lemma split_append_no_sep:
  "sep \<notin> set xs \<Longrightarrow> split sep (xs @ ys) = (xs @ hd (split sep ys)) # tl (split sep ys)"
proof (induction xs)
  case Nil
  then show ?case by (cases ys) (auto split: list.splits)
next
  case (Cons a xs)
  then show ?case by auto
qed

text \<open>
  C6 (as amended). The claim as stated fails: the code puts no blank line between
  \<open>User-agent: *\<close> and \<open>Allow: /\<close>. The body is the line \<open>User-agent: *\<close>, then
  directly the line \<open>Allow: /\<close>, then one blank line, then \<open>Sitemap: <sitemapUrl>\<close>:
  it is these four lines joined by newlines, and splitting it at newlines gives them
  back (followed by whatever further lines \<open>sitemapUrl\<close> itself holds).
\<close>

theorem generateRobotsTxt_lines:
  "generateRobotsTxt sitemapUrl =
     join ''\<newline>'' [''User-agent: *'', ''Allow: /'', '''', ''Sitemap: '' @ sitemapUrl] \<and>
   split (CHR ''\<newline>'') (generateRobotsTxt sitemapUrl) =
     ''User-agent: *'' # ''Allow: /'' # '''' # split (CHR ''\<newline>'') (''Sitemap: '' @ sitemapUrl) \<and>
   split (CHR ''\<newline>'') (''Sitemap: '' @ sitemapUrl) =
     (''Sitemap: '' @ hd (split (CHR ''\<newline>'') sitemapUrl)) # tl (split (CHR ''\<newline>'') sitemapUrl)"
proof -
  have 1: "generateRobotsTxt sitemapUrl =
     join ''\<newline>'' [''User-agent: *'', ''Allow: /'', '''', ''Sitemap: '' @ sitemapUrl]"
    by (simp add: generateRobotsTxt_def)
  have 3: "split (CHR ''\<newline>'') (''Sitemap: '' @ sitemapUrl) =
     (''Sitemap: '' @ hd (split (CHR ''\<newline>'') sitemapUrl)) # tl (split (CHR ''\<newline>'') sitemapUrl)"
    by (rule split_append_no_sep) simp
  have 2: "split (CHR ''\<newline>'') (generateRobotsTxt sitemapUrl) =
     ''User-agent: *'' # ''Allow: /'' # '''' # split (CHR ''\<newline>'') (''Sitemap: '' @ sitemapUrl)"
    unfolding generateRobotsTxt_def by (simp add: 3)
  from 1 2 3 show ?thesis by blast
qed

text \<open>
  C6 as stated is false: the body has four lines, the second of which is \<open>Allow: /\<close>,
  and differs from the five-line layout with a blank line after \<open>User-agent: *\<close>.
\<close>

theorem generateRobotsTxt_lines_counterexample:
  "split (CHR ''\<newline>'') (generateRobotsTxt ''https://example.com/sitemap.xml'') =
     [''User-agent: *'', ''Allow: /'', '''', ''Sitemap: https://example.com/sitemap.xml''] \<and>
   generateRobotsTxt ''https://example.com/sitemap.xml'' \<noteq>
     join ''\<newline>'' [''User-agent: *'', '''', ''Allow: /'', '''', ''Sitemap: https://example.com/sitemap.xml'']"
  by (simp add: generateRobotsTxt_def)

section \<open>Description truncation\<close>

text \<open>
  C2 (as amended). The claim as stated fails for \<open>maxLen < 3\<close>, where the ellipsis alone
  is longer than \<open>maxLen\<close>. For every \<open>text\<close> and every integer \<open>maxLen\<close>,
  \<open>truncateDescription\<close> returns \<open>text\<close> unchanged when \<open>length text \<le> maxLen\<close> (so a
  text of exactly \<open>maxLen\<close> characters is returned verbatim) and otherwise the first
  \<open>maxLen - 3\<close> characters (none when \<open>maxLen < 3\<close>) followed by \<open>...\<close>; the result is
  at most \<open>maxLen\<close> long whenever \<open>maxLen \<ge> 3\<close>. The default \<open>maxLen\<close> is 160, and 161
  letters \<open>A\<close> give 157 letters \<open>A\<close> and \<open>...\<close>, 160 characters.
\<close>

theorem truncateDescription_spec:
  "(if int (length text) \<le> maxLen
    then truncateDescription text (Some maxLen) = text
    else truncateDescription text (Some maxLen) = take (nat (maxLen - 3)) text @ ''...'') \<and>
   (3 \<le> maxLen \<longrightarrow> int (length (truncateDescription text (Some maxLen))) \<le> maxLen) \<and>
   truncateDescription text None = truncateDescription text (Some 160) \<and>
   truncateDescription (replicate 160 (CHR ''A'')) None = replicate 160 (CHR ''A'') \<and>
   truncateDescription (replicate 161 (CHR ''A'')) None = replicate 157 (CHR ''A'') @ ''...'' \<and>
   length (truncateDescription (replicate 161 (CHR ''A'')) None) = 160"
  by (auto simp: truncateDescription_def Let_def)

text \<open>The theorem at \<open>maxLen = 10\<close>, on a text of 10 and one of 11 characters.\<close>

theorem truncateDescription_spec_witness:
  "(3::int) \<le> 10 \<and>
   truncateDescription ''0123456789'' (Some 10) = ''0123456789'' \<and>
   truncateDescription ''0123456789A'' (Some 10) = ''0123456...'' \<and>
   int (length (truncateDescription ''0123456789A'' (Some 10))) \<le> 10"
proof -
  have h: "(3::int) \<le> 10" by simp
  note t = truncateDescription_spec[of _ 10]
  have a: "truncateDescription ''0123456789'' (Some 10) = ''0123456789''"
    using t[of "''0123456789''", THEN conjunct1] by simp
  have b: "truncateDescription ''0123456789A'' (Some 10) = ''0123456...''"
    using t[of "''0123456789A''", THEN conjunct1] by simp
  have c: "int (length (truncateDescription ''0123456789A'' (Some 10))) \<le> 10"
    by (rule t[THEN conjunct2, THEN conjunct1, THEN mp, OF h])
  from h a b c show ?thesis by blast
qed

text \<open>
  C2 as stated is false: with \<open>maxLen = 2\<close> a four-character text becomes \<open>...\<close>,
  three characters.
\<close>

theorem truncateDescription_spec_counterexample:
  "truncateDescription ''abcd'' (Some 2) = ''...'' \<and>
   \<not> int (length (truncateDescription ''abcd'' (Some 2))) \<le> 2"
  by (simp add: truncateDescription_def)

section \<open>XML escaping\<close>



lemma startsWith_append: "startsWith p (p @ rest)"
  by (induction p) auto





lemma join_mid:
  "join sep (xs @ y # zs) = concat (map (\<lambda>x. x @ sep) xs) @ y @ concat (map (\<lambda>z. sep @ z) zs)"
proof (induction xs)
  case Nil
  show ?case by (induction zs arbitrary: y) simp_all
next
  case (Cons x xs)
  then show ?case by (cases xs) simp_all
qed

text \<open>
  C10. \<open>generateSitemap\<close> is an order-preserving element-wise map: the document is the
  fixed header, the blocks \<open>urlEntry (urls ! 0)\<close>, \<open>urlEntry (urls ! 1)\<close>, ... joined by
  newlines in input order, and the fixed footer; there are as many blocks as entries; for
  every index \<open>i\<close> the \<open>i\<close>-th block is the one generated from \<open>urls ! i\<close>, it stands
  after the blocks of the entries before \<open>i\<close> and before those of the entries after
  \<open>i\<close>, and it begins with the \<open><loc>\<close> element holding \<open>escapeXml (loc (urls ! i))\<close>.
\<close>

theorem generateSitemap_order:
  "generateSitemap numberToString urls =
     sitemapHeader @ join ''\<newline>'' (map (urlEntry numberToString) urls) @ sitemapFooter \<and>
   length (map (urlEntry numberToString) urls) = length urls \<and>
   (\<forall>i < length urls.
      map (urlEntry numberToString) urls ! i = urlEntry numberToString (urls ! i) \<and>
      generateSitemap numberToString urls =
        sitemapHeader @
        concat (map (\<lambda>u. urlEntry numberToString u @ ''\<newline>'') (take i urls)) @
        urlEntry numberToString (urls ! i) @
        concat (map (\<lambda>u. ''\<newline>'' @ urlEntry numberToString u) (drop (Suc i) urls)) @
        sitemapFooter \<and>
      startsWith (''  <url>\<newline>    <loc>'' @ escapeXml (loc (urls ! i)) @ ''</loc>'')
        (urlEntry numberToString (urls ! i)))"
proof -
  have a: "generateSitemap numberToString urls =
     sitemapHeader @ join ''\<newline>'' (map (urlEntry numberToString) urls) @ sitemapFooter"
    by (simp add: generateSitemap_def)
  have b: "generateSitemap numberToString urls =
        sitemapHeader @
        concat (map (\<lambda>u. urlEntry numberToString u @ ''\<newline>'') (take i urls)) @
        urlEntry numberToString (urls ! i) @
        concat (map (\<lambda>u. ''\<newline>'' @ urlEntry numberToString u) (drop (Suc i) urls)) @
        sitemapFooter" if "i < length urls" for i
  proof -
    have "urls = take i urls @ urls ! i # drop (Suc i) urls"
      using that by (simp add: id_take_nth_drop)
    then have "map (urlEntry numberToString) urls =
       map (urlEntry numberToString) (take i urls) @ urlEntry numberToString (urls ! i) #
       map (urlEntry numberToString) (drop (Suc i) urls)"
      by (metis list.simps(9) map_append)
    then show ?thesis
      by (simp add: a join_mid map_concat comp_def del: join.simps)
  qed
  have c: "startsWith (''  <url>\<newline>    <loc>'' @ escapeXml (loc u) @ ''</loc>'')
        (urlEntry numberToString u)" for u
    using startsWith_append[of "''  <url>\<newline>    <loc>'' @ escapeXml (loc u) @ ''</loc>''"]
    by (simp add: urlEntry_def del: startsWith.simps)
  from a b c show ?thesis by simp
qed


text \<open>The theorem at the second of two entries.\<close>

theorem generateSitemap_order_witness:
  "(1::nat) < length exampleUrls \<and>
   generateSitemap tenthsToString exampleUrls =
     sitemapHeader @ urlEntry tenthsToString (exampleUrls ! 0) @ ''\<newline>'' @
     urlEntry tenthsToString (exampleUrls ! 1) @ sitemapFooter"
proof -
  have h: "(1::nat) < length exampleUrls" by (simp add: exampleUrls_def)
  have t: "take 1 exampleUrls = [exampleUrls ! 0]" "drop (Suc 1) exampleUrls = []"
    by (simp_all add: exampleUrls_def)
  note g = generateSitemap_order[of tenthsToString exampleUrls, THEN conjunct2, THEN conjunct2,
      THEN spec, THEN mp, OF h, THEN conjunct2, THEN conjunct1]
  have "generateSitemap tenthsToString exampleUrls =
     sitemapHeader @ urlEntry tenthsToString (exampleUrls ! 0) @ ''\<newline>'' @
     urlEntry tenthsToString (exampleUrls ! 1) @ sitemapFooter"
    using g by (simp only: t list.map concat.simps append_Nil append_Nil2 append_assoc)
  with h show ?thesis by blast
qed

section \<open>Meta tags\<close>

lemma lt_notin_escapeHtml: "CHR ''<'' \<notin> set (escapeHtml s)"
  by (induction s) (auto simp: escapeHtml_def escapeHtml_map_def)

lemma startsWith_same_prefix: "startsWith (xs @ p) (xs @ s) = startsWith p s"
  by (induction xs) auto

lemmas tag_simps = Let_def countOcc_skip lt_notin_escapeHtml startsWith_same_prefix

lemma basic_author_count:
  \<open>countOcc ''<meta name="author"'' (generateBasicMetaTags config) = (if truthy (MetaTagsConfig.author config) then 1 else 0)\<close>
  by (simp add: generateBasicMetaTags_def tag_simps split: option.splits)

lemma basic_author_tag:
  \<open>countOcc (''<meta name="author" content="'' @ escapeHtml (a # as) @ ''">'')
     (generateBasicMetaTags (config\<lparr>MetaTagsConfig.author := Some (a # as)\<rparr>)) = 1\<close>
  by (simp add: generateBasicMetaTags_def truthy_def tag_simps split: option.splits)

lemma basic_author_empty:
  "generateBasicMetaTags (config\<lparr>MetaTagsConfig.author := Some ''''\<rparr>) = generateBasicMetaTags (config\<lparr>MetaTagsConfig.author := None\<rparr>)"
  by (simp add: generateBasicMetaTags_def truthy_def Let_def)

text \<open>
  C4 (as amended). The claim as stated fails: the author tag is guarded by
  \<open>if (config.author)\<close>, and the empty string is falsy. For every \<open>MetaTagsConfig\<close>, the
  output of \<open>generateBasicMetaTags\<close> holds one \<open><meta name="author">\<close> tag when the
  author is present and non-empty (its content is the escaped author) and none
  otherwise: a configuration whose author is the empty string gives the same output as
  one whose author is absent, with no author tag.
\<close>

theorem generateBasicMetaTags_author:
  \<open>countOcc ''<meta name="author"'' (generateBasicMetaTags config) = (if truthy (MetaTagsConfig.author config) then 1 else 0) \<and>
   generateBasicMetaTags (config\<lparr>MetaTagsConfig.author := Some ''''\<rparr>) = generateBasicMetaTags (config\<lparr>MetaTagsConfig.author := None\<rparr>) \<and>
   countOcc ''<meta name="author"'' (generateBasicMetaTags (config\<lparr>MetaTagsConfig.author := Some ''''\<rparr>)) = 0 \<and>
   countOcc ''<meta name="author"'' (generateBasicMetaTags (config\<lparr>MetaTagsConfig.author := None\<rparr>)) = 0 \<and>
   countOcc (''<meta name="author" content="'' @ escapeHtml (a # as) @ ''">'')
     (generateBasicMetaTags (config\<lparr>MetaTagsConfig.author := Some (a # as)\<rparr>)) = 1\<close>
  using basic_author_count[of config] basic_author_count[of "config\<lparr>MetaTagsConfig.author := Some ''''\<rparr>"]
    basic_author_count[of "config\<lparr>MetaTagsConfig.author := None\<rparr>"] basic_author_empty[of config]
    basic_author_tag[of a as config]
  by (simp add: truthy_def del: countOcc.simps)

text \<open>
  C4 as stated is false: the configuration of the test suite with \<open>author: ""\<close> gives an
  output without any author tag.
\<close>

theorem generateBasicMetaTags_author_counterexample:
  \<open>MetaTagsConfig.author emptyAuthorConfig = Some '''' \<and>
   \<not> includesStr (generateBasicMetaTags emptyAuthorConfig) ''<meta name="author"''\<close>
  by (simp add: emptyAuthorConfig_def includesStr_def generateBasicMetaTags_def truthy_def Let_def
      truncateDescription_def escapeHtml_def)

lemma og_counts:
  \<open>countOcc ''<meta property="og:title" content="'' (generateOpenGraphTags config) = 1\<close>
  \<open>countOcc ''<meta property="og:description" content="'' (generateOpenGraphTags config) = 1\<close>
  \<open>countOcc ''<meta property="og:image" content="'' (generateOpenGraphTags config) = 1\<close>
  \<open>countOcc ''<meta property="og:type" content="'' (generateOpenGraphTags config) = 1\<close>
  \<open>countOcc ''<meta property="og:url" content="'' (generateOpenGraphTags config) = 1\<close>
  \<open>countOcc ''<meta property="og:site_name" content="'' (generateOpenGraphTags config) =
     (if truthy (ogSiteName config) then 1 else 0)\<close>
  \<open>countOcc ''<meta '' (generateOpenGraphTags config) = 5 + (if truthy (ogSiteName config) then 1 else 0)\<close>
  by (simp_all add: generateOpenGraphTags_def tag_simps)

lemma twitter_counts:
  \<open>countOcc ''<meta name="twitter:card" content="'' (generateTwitterCardTags config) = 1\<close>
  \<open>countOcc ''<meta name="twitter:title" content="'' (generateTwitterCardTags config) = 1\<close>
  \<open>countOcc ''<meta name="twitter:description" content="'' (generateTwitterCardTags config) = 1\<close>
  \<open>countOcc ''<meta name="twitter:image" content="'' (generateTwitterCardTags config) = 1\<close>
  \<open>countOcc ''<meta name="twitter:site" content="'' (generateTwitterCardTags config) =
     (if truthy (twitterSite config) then 1 else 0)\<close>
  \<open>countOcc ''<meta name="twitter:creator" content="'' (generateTwitterCardTags config) =
     (if truthy (twitterCreator config) then 1 else 0)\<close>
  \<open>countOcc ''<meta '' (generateTwitterCardTags config) =
     4 + (if truthy (twitterSite config) then 1 else 0) + (if truthy (twitterCreator config) then 1 else 0)\<close>
  by (simp_all add: generateTwitterCardTags_def tag_simps)


text \<open>
  C8 (as amended). The claim as stated fails where an optional field is provided as the
  empty string: the tags are guarded by truthiness. For every \<open>OpenGraphTags\<close> input the
  output of \<open>generateOpenGraphTags\<close> holds each of the five tags \<open>og:title\<close>,
  \<open>og:description\<close>, \<open>og:image\<close>, \<open>og:type\<close>, \<open>og:url\<close> exactly once, an
  \<open>og:site_name\<close> tag exactly when \<open>ogSiteName\<close> is provided and non-empty, and no other
  \<open>meta\<close> tag. For every \<open>TwitterCardTags\<close> input the output of
  \<open>generateTwitterCardTags\<close> holds each of \<open>twitter:card\<close>, \<open>twitter:title\<close>,
  \<open>twitter:description\<close>, \<open>twitter:image\<close> exactly once, a \<open>twitter:site\<close> tag exactly
  when \<open>twitterSite\<close> is provided and non-empty, a \<open>twitter:creator\<close> tag exactly when
  \<open>twitterCreator\<close> is provided and non-empty (each decided on its own), and no other
  \<open>meta\<close> tag.
\<close>

theorem social_tags_required_and_optional:
  \<open>countOcc ''<meta property="og:title" content="'' (generateOpenGraphTags og) = 1 \<and>
   countOcc ''<meta property="og:description" content="'' (generateOpenGraphTags og) = 1 \<and>
   countOcc ''<meta property="og:image" content="'' (generateOpenGraphTags og) = 1 \<and>
   countOcc ''<meta property="og:type" content="'' (generateOpenGraphTags og) = 1 \<and>
   countOcc ''<meta property="og:url" content="'' (generateOpenGraphTags og) = 1 \<and>
   countOcc ''<meta property="og:site_name" content="'' (generateOpenGraphTags og) =
     (if truthy (ogSiteName og) then 1 else 0) \<and>
   countOcc ''<meta '' (generateOpenGraphTags og) = 5 + (if truthy (ogSiteName og) then 1 else 0) \<and>
   countOcc ''<meta name="twitter:card" content="'' (generateTwitterCardTags tw) = 1 \<and>
   countOcc ''<meta name="twitter:title" content="'' (generateTwitterCardTags tw) = 1 \<and>
   countOcc ''<meta name="twitter:description" content="'' (generateTwitterCardTags tw) = 1 \<and>
   countOcc ''<meta name="twitter:image" content="'' (generateTwitterCardTags tw) = 1 \<and>
   countOcc ''<meta name="twitter:site" content="'' (generateTwitterCardTags tw) =
     (if truthy (twitterSite tw) then 1 else 0) \<and>
   countOcc ''<meta name="twitter:creator" content="'' (generateTwitterCardTags tw) =
     (if truthy (twitterCreator tw) then 1 else 0) \<and>
   countOcc ''<meta '' (generateTwitterCardTags tw) =
     4 + (if truthy (twitterSite tw) then 1 else 0) + (if truthy (twitterCreator tw) then 1 else 0)\<close>
  using og_counts[of og] twitter_counts[of tw] by blast

text \<open>
  C8 as stated is false: an \<open>ogSiteName\<close> and a \<open>twitterSite\<close> provided as the empty
  string produce no tag, while the non-empty \<open>twitterCreator\<close> beside it does.
\<close>

theorem social_tags_required_and_optional_counterexample:
  \<open>ogSiteName emptySiteNameConfig = Some [] \<and>
   \<not> includesStr (generateOpenGraphTags emptySiteNameConfig) ''og:site_name'' \<and>
   twitterSite emptyHandlesConfig = Some [] \<and>
   \<not> includesStr (generateTwitterCardTags emptyHandlesConfig) ''twitter:site'' \<and>
   includesStr (generateTwitterCardTags emptyHandlesConfig) ''twitter:creator''\<close>
  by (simp add: emptySiteNameConfig_def emptyHandlesConfig_def includesStr_def
      generateOpenGraphTags_def generateTwitterCardTags_def truthy_def Let_def escapeHtml_def)

section \<open>Configuration resolver\<close>

lemma getEnv_resolve: "getEnv process_env key (Some dflt) env = resolve env process_env key dflt"
  by (auto simp: getEnv_def resolve_def truthyProperty_def layerValue_def split: option.splits)

lemma getEnv_default: "getEnv process_env key None env = resolve env process_env key []"
  by (auto simp: getEnv_def resolve_def truthyProperty_def layerValue_def split: option.splits)

lemma getEnv_empty_is_absent:
  "getEnv process_env key dflt (Some (e(key \<mapsto> []))) = getEnv process_env key dflt (Some (e(key := None)))"
  "getEnv (Some (pe(key \<mapsto> []))) key dflt env = getEnv (Some (pe(key := None))) key dflt env"
  "getEnv process_env key dflt (Some Map.empty) = getEnv process_env key dflt None"
  "getEnv (Some Map.empty) key dflt env = getEnv None key dflt env"
  by (auto simp: getEnv_def truthyProperty_def split: option.splits)

lemma getEnv_precedence:
  "getEnv process_env key d (Some (e(key \<mapsto> a # as))) = a # as"
  "getEnv (Some (pe(key \<mapsto> a # as))) key d (Some (e(key := None))) = a # as"
  "getEnv (Some (pe(key \<mapsto> a # as))) key d None = a # as"
  "getEnv (Some (pe(key := None))) key (Some dflt) (Some (e(key := None))) = dflt"
  "getEnv None key (Some dflt) None = dflt"
  by (auto simp: getEnv_def truthyProperty_def split: option.splits)

text \<open>
  C9. For every configuration key and default, \<open>getEnv\<close> returns the first non-empty
  value found by checking, in order, the caller-supplied bindings, the process
  environment and the hardcoded default (\<open>resolve\<close>, the rule in the specification's
  words); \<open>createSiteConfig\<close>, \<open>createAnalyticsConfig\<close> and \<open>createSEOConfig\<close> fill
  every environment-driven field with the value so resolved (\<open>environment\<close> and
  \<open>enableDebug\<close> are decided by comparing the resolved \<open>ENVIRONMENT\<close> with
  \<open>production\<close>). An empty value at a layer is treated exactly like an absent one, and
  a missing layer like an empty one; a non-empty value in the bindings wins over
  everything, a non-empty value in the process environment wins when the bindings have
  none, and the default is returned when neither layer has one.
\<close>

theorem config_resolution:
  "getEnv process_env key (Some dflt) env = resolve env process_env key dflt \<and>
   getEnv process_env key None env = resolve env process_env key [] \<and>
   SiteConfig.url (createSiteConfig process_env env) =
     resolve env process_env ''SITE_URL'' ''https://sandeepkommineni.me'' \<and>
   SiteConfig.domain (createSiteConfig process_env env) =
     resolve env process_env ''SITE_DOMAIN'' ''sandeepkommineni.me'' \<and>
   googleAnalyticsId (createAnalyticsConfig process_env env) =
     Some (resolve env process_env ''GA_MEASUREMENT_ID'' []) \<and>
   googleSearchConsoleId (createAnalyticsConfig process_env env) =
     Some (resolve env process_env ''GSC_VERIFICATION_ID'' []) \<and>
   enableDebug (createAnalyticsConfig process_env env) =
     Some (resolve env process_env ''ENVIRONMENT'' ''production'' \<noteq> ''production'') \<and>
   SiteInfo.url (site (createSEOConfig process_env env)) =
     resolve env process_env ''SITE_URL'' ''https://sandeepkommineni.me'' \<and>
   SiteInfo.domain (site (createSEOConfig process_env env)) =
     resolve env process_env ''SITE_DOMAIN'' ''sandeepkommineni.me'' \<and>
   ogImage (meta (createSEOConfig process_env env)) =
     resolve env process_env ''SITE_URL'' ''https://sandeepkommineni.me'' @ ''/static/profile.jpg'' \<and>
   image (person (createSEOConfig process_env env)) =
     Some (resolve env process_env ''SITE_URL'' ''https://sandeepkommineni.me'' @ ''/static/profile.jpg'') \<and>
   analytics (createSEOConfig process_env env) = createAnalyticsConfig process_env env \<and>
   environment (createSEOConfig process_env env) =
     (if resolve env process_env ''ENVIRONMENT'' ''production'' = ''production''
      then ''production'' else ''development'') \<and>
   getEnv process_env key dflt' (Some (e(key \<mapsto> []))) =
     getEnv process_env key dflt' (Some (e(key := None))) \<and>
   getEnv (Some (pe(key \<mapsto> []))) key dflt' env = getEnv (Some (pe(key := None))) key dflt' env \<and>
   getEnv process_env key dflt' (Some Map.empty) = getEnv process_env key dflt' None \<and>
   getEnv (Some Map.empty) key dflt' env = getEnv None key dflt' env \<and>
   getEnv process_env key dflt' (Some (e(key \<mapsto> a # as))) = a # as \<and>
   getEnv (Some (pe(key \<mapsto> a # as))) key dflt' (Some (e(key := None))) = a # as \<and>
   getEnv (Some (pe(key \<mapsto> a # as))) key dflt' None = a # as \<and>
   getEnv (Some (pe(key := None))) key (Some dflt) (Some (e(key := None))) = dflt \<and>
   getEnv None key (Some dflt) None = dflt"
proof -
  have site: "createSiteConfig process_env env =
      \<lparr>SiteConfig.url = resolve env process_env ''SITE_URL'' ''https://sandeepkommineni.me'',
       SiteConfig.domain = resolve env process_env ''SITE_DOMAIN'' ''sandeepkommineni.me''\<rparr>"
    by (simp add: createSiteConfig_def getEnv_resolve)
  have prod: "isProduction process_env env =
      (resolve env process_env ''ENVIRONMENT'' ''production'' = ''production'')"
    by (simp add: isProduction_def getEnv_resolve)
  have an: "createAnalyticsConfig process_env env =
      \<lparr>googleAnalyticsId = Some (resolve env process_env ''GA_MEASUREMENT_ID'' []),
       googleSearchConsoleId = Some (resolve env process_env ''GSC_VERIFICATION_ID'' []),
       enableDebug = Some (resolve env process_env ''ENVIRONMENT'' ''production'' \<noteq> ''production'')\<rparr>"
    by (simp add: createAnalyticsConfig_def getEnv_resolve prod)
  have seo: "SiteInfo.url (site (createSEOConfig process_env env)) = SiteConfig.url (createSiteConfig process_env env)"
    "SiteInfo.domain (site (createSEOConfig process_env env)) = SiteConfig.domain (createSiteConfig process_env env)"
    "ogImage (meta (createSEOConfig process_env env)) = SiteConfig.url (createSiteConfig process_env env) @ ''/static/profile.jpg''"
    "image (person (createSEOConfig process_env env)) = Some (SiteConfig.url (createSiteConfig process_env env) @ ''/static/profile.jpg'')"
    "analytics (createSEOConfig process_env env) = createAnalyticsConfig process_env env"
    "environment (createSEOConfig process_env env) = (if isProduction process_env env then ''production'' else ''development'')"
    by (simp_all add: createSEOConfig_def Let_def)
  show ?thesis
    by (intro conjI;
        (rule getEnv_empty_is_absent getEnv_precedence
         | simp only: seo prod site an getEnv_resolve getEnv_default
             SiteConfig.simps AnalyticsConfig.simps simp_thms))
qed

section \<open>JSON: parsing what is serialised\<close>

lemma hexValue_hexDigit_all: "\<forall>n\<in>set [0..<16]. hexValue (hexDigit n) = Some n"
  by code_simp

lemma hexValue_hexDigit: "n < 16 \<Longrightarrow> hexValue (hexDigit n) = Some n"
  using hexValue_hexDigit_all by simp

lemma hexValue_zero: "hexValue (CHR ''0'') = Some 0"
  by (simp add: hexValue_def)

lemma of_char_lt_256: "(of_char c :: nat) < 256"
  by (cases c) simp

lemma unescape_simps:
  "unescape (CHR ''b'') = Some (CHR 0x08)" "unescape (CHR ''t'') = Some (CHR 0x09)"
  "unescape (CHR ''n'') = Some (CHR 0x0A)" "unescape (CHR ''f'') = Some (CHR 0x0C)"
  "unescape (CHR ''r'') = Some (CHR 0x0D)" "unescape (CHR 0x22) = Some (CHR 0x22)"
  "unescape (CHR 0x5C) = Some (CHR 0x5C)"
  by (simp_all add: unescape_def)

lemma parse_quoteJSONChar:
  assumes "parseStringBody s = Some (x, r)"
  shows "parseStringBody (quoteJSONChar c @ s) = Some (c # x, r)"
proof -
  have u: "parseStringBody ([CHR 0x5C, CHR ''u'', CHR ''0'', CHR ''0'',
            hexDigit (of_char c div 16), hexDigit (of_char c mod 16)] @ s) = Some (c # x, r)"
    if "(of_char c :: nat) < 0x20"
  proof -
    have a: "(of_char c :: nat) div 16 < 16" "(of_char c :: nat) mod 16 < 16"
      using that by simp_all
    have b: "(of_char c :: nat) div 16 * 16 + of_char c mod 16 = of_char c" by simp
    show ?thesis
      using assms of_char_lt_256[of c]
      by (simp add: hexValue_hexDigit[OF a(1)] hexValue_hexDigit[OF a(2)] hexValue_zero b)
  qed
  show ?thesis
    using assms u
    by (auto simp: quoteJSONChar_def unescape_simps simp del: parseStringBody.simps
        simp add: parseStringBody.simps(2)[of "CHR 0x5C"] parseStringBody.simps(2)[of c])
qed

lemma parse_quoted:
  "parseStringBody (concat (map quoteJSONChar s) @ CHR 0x22 # rest) = Some (s, rest)"
  by (induction s) (simp_all add: parse_quoteJSONChar parseStringBody.simps(2)[of "CHR 0x22"] del: parseStringBody.simps(2))

lemma parse_shorter:
  "parseValue s1 = Some (v, r1) \<Longrightarrow> length r1 < length s1"
  "parseArray s2 = Some (vs2, r2) \<Longrightarrow> length r2 < length s2"
  "parseElements s3 = Some (vs3, r3) \<Longrightarrow> length r3 < length s3"
  "parseElementsTail s4 = Some (vs4, r4) \<Longrightarrow> length r4 < length s4"
  "parseObject s5 = Some (kvs5, r5) \<Longrightarrow> length r5 < length s5"
  "parseMembers s6 = Some (kvs6, r6) \<Longrightarrow> length r6 < length s6"
  "parseMembersTail s7 = Some (kvs7, r7) \<Longrightarrow> length r7 < length s7"
proof (induction s1 and s2 and s3 and s4 and s5 and s6 and s7
    arbitrary: v r1 and vs2 r2 and vs3 r3 and vs4 r4 and kvs5 r5 and kvs6 r6 and kvs7 r7
    rule: parseValue_parseArray_parseElements_parseElementsTail_parseObject_parseMembers_parseMembersTail.induct)
  case 1
  then show ?case by simp
next
  case (2 c cs)
  then show ?case
    by (fastforce split: if_splits option.splits prod.splits dest: parseStringBody_shorter)
next
  case 3
  then show ?case by simp
next
  case (4 c cs)
  then show ?case by (fastforce split: if_splits)
next
  case (5 s)
  then show ?case by (fastforce split: if_splits option.splits prod.splits)
next
  case 6
  then show ?case by simp
next
  case (7 c cs)
  then show ?case by (fastforce split: if_splits)
next
  case 8
  then show ?case by simp
next
  case (9 c cs)
  then show ?case by (fastforce split: if_splits)
next
  case 10
  then show ?case by simp
next
  case (11 c cs)
  show ?case
  proof (cases "isWs c")
    case True
    then show ?thesis using "11.IH"(1) "11.prems" by fastforce
  next
    case False
    then obtain k r r' v r'' kvs where
      p: "c = CHR 0x22" "parseStringBody cs = Some (k, r)" "parseColon r = Some r'"
         "parseValue r' = Some (v, r'')" "length r'' < length r'"
         "parseMembersTail r'' = Some (kvs, r6)"
      using "11.prems" by (auto split: if_splits option.splits prod.splits)
    have "length r6 < length r''"
      using "11.IH"(3)[OF False p(1) p(2) refl p(3) p(4) refl p(5) p(6)] .
    then show ?thesis
      using p parseStringBody_shorter[OF p(2)] parseColon_shorter[OF p(3)] by simp
  qed
next
  case 12
  then show ?case by simp
next
  case (13 c cs)
  then show ?case by (fastforce split: if_splits)
qed

lemma parseElements_unguarded:
  "parseElements s =
     (case parseValue s of
        None \<Rightarrow> None
      | Some (v, r) \<Rightarrow>
          (case parseElementsTail r of None \<Rightarrow> None | Some (vs, r') \<Rightarrow> Some (v # vs, r')))"
  by (auto split: option.splits dest: parse_shorter(1))

lemma parseMembers_unguarded:
  "parseMembers (c # cs) =
     (if isWs c then parseMembers cs
      else if c = CHR 0x22 then
        (case parseStringBody cs of
           None \<Rightarrow> None
         | Some (k, r) \<Rightarrow>
             (case parseColon r of
                None \<Rightarrow> None
              | Some r' \<Rightarrow>
                  (case parseValue r' of
                     None \<Rightarrow> None
                   | Some (v, r'') \<Rightarrow>
                       (case parseMembersTail r'' of
                          None \<Rightarrow> None
                        | Some (kvs, rest) \<Rightarrow> Some ((k, v) # kvs, rest)))))
      else None)"
  by (auto split: option.splits dest: parse_shorter(1))

declare parseElements.simps [simp del]
declare parseMembers.simps(2) [simp del]

lemma skip_ws:
  assumes "list_all isWs ws"
  shows "parseValue (ws @ s) = parseValue s"
    and "parseArray (ws @ s) = parseArray s"
    and "parseElements (ws @ s) = parseElements s"
    and "parseElementsTail (ws @ s) = parseElementsTail s"
    and "parseObject (ws @ s) = parseObject s"
    and "parseMembers (ws @ s) = parseMembers s"
    and "parseMembersTail (ws @ s) = parseMembersTail s"
    and "parseColon (ws @ s) = parseColon s"
proof -
  show v: "parseValue (ws @ s) = parseValue s"
    using assms by (induction ws) simp_all
  show "parseArray (ws @ s) = parseArray s"
    using assms by (induction ws) simp_all
  show "parseElements (ws @ s) = parseElements s"
    by (simp add: parseElements_unguarded v)
  show "parseElementsTail (ws @ s) = parseElementsTail s"
    using assms by (induction ws) simp_all
  show "parseObject (ws @ s) = parseObject s"
    using assms by (induction ws) simp_all
  show "parseMembers (ws @ s) = parseMembers s"
    using assms by (induction ws) (simp_all add: parseMembers_unguarded)
  show "parseMembersTail (ws @ s) = parseMembersTail s"
    using assms by (induction ws) simp_all
  show "parseColon (ws @ s) = parseColon s"
    using assms by (induction ws) simp_all
qed

lemma skip_ws_Cons:
  "isWs c \<Longrightarrow> parseElements (c # s) = parseElements s"
  using skip_ws(3)[of "[c]" s] by simp

lemma isWs_simps: "isWs (CHR ''\<newline>'')" "isWs (CHR '' '')" "\<not> isWs (CHR 0x22)" "\<not> isWs (CHR ''['')"
  "\<not> isWs (CHR '']'')" "\<not> isWs (CHR ''{'')" "\<not> isWs (CHR ''}'')" "\<not> isWs (CHR '','')" "\<not> isWs (CHR '':'')"
  by (simp_all add: isWs_def)

lemma serialize_nonempty: "serializeJSONProperty ind v \<noteq> []"
  by (cases v) (simp_all add: quoteJSONString_def Let_def)

lemma parse_key:
  "parseStringBody (tl (quoteJSONString k) @ rest) = Some (k, rest)"
  by (simp add: quoteJSONString_def parse_quoted)

lemma quoteJSONString_Cons: "quoteJSONString k = CHR 0x22 # concat (map quoteJSONChar k) @ [CHR 0x22]"
  by (simp add: quoteJSONString_def)

lemma ws_gap: "list_all isWs ind \<Longrightarrow> list_all isWs (ind @ gap)"
  by (simp add: gap_def isWs_def)

lemma elements_roundtrip:
  assumes ih: "\<And>v ind rest. v \<in> set vs \<Longrightarrow> list_all isWs ind \<Longrightarrow>
                 parseValue (serializeJSONProperty ind v @ rest) = Some (v, rest)"
    and ws: "list_all isWs ind" "list_all isWs ind'"
    and ne: "vs \<noteq> []"
  shows "parseElements (join ('',\<newline>'' @ ind') (map (serializeJSONProperty ind') vs) @
           ''\<newline>'' @ ind @ '']'' @ rest) = Some (vs, rest)"
  using ih ne
proof (induction vs)
  case Nil
  then show ?case by simp
next
  case (Cons v vs)
  show ?case
  proof (cases vs)
    case Nil
    then show ?thesis
      using Cons.prems(1)[of v ind'] ws
      by (simp add: parseElements_unguarded skip_ws isWs_simps)
  next
    case (Cons w ws')
    have "parseElements (join ('',\<newline>'' @ ind') (map (serializeJSONProperty ind') vs) @
           ''\<newline>'' @ ind @ '']'' @ rest) = Some (vs, rest)"
      using Cons.IH Cons.prems(1) Cons by simp
    then show ?thesis
      using Cons Cons.prems(1)[of v ind'] ws
      by (simp add: parseElements_unguarded[of "serializeJSONProperty ind' v @ _"] skip_ws skip_ws_Cons isWs_simps)
  qed
qed

lemma join_Cons_if: "join sep (x # xs) = x @ (if xs = [] then [] else sep @ join sep xs)"
  by (cases xs) simp_all

lemma serialize_head:
  "\<exists>c cs. serializeJSONProperty ind v = c # cs \<and> \<not> isWs c \<and> c \<noteq> CHR '']''"
  by (cases v) (simp_all add: quoteJSONString_def Let_def isWs_def)

lemma parseArray_elements:
  "parseArray (serializeJSONProperty ind v @ s) = parseElements (serializeJSONProperty ind v @ s)"
  using serialize_head[of ind v] by auto

lemma members_roundtrip:
  assumes ih: "\<And>k v ind rest. (k, v) \<in> set kvs \<Longrightarrow> list_all isWs ind \<Longrightarrow>
                 parseValue (serializeJSONProperty ind v @ rest) = Some (v, rest)"
    and ws: "list_all isWs ind" "list_all isWs ind'"
    and ne: "kvs \<noteq> []"
  shows "parseMembers
           (join ('',\<newline>'' @ ind')
              (map (\<lambda>(k, v). quoteJSONString k @ '': '' @ serializeJSONProperty ind' v) kvs) @
            ''\<newline>'' @ ind @ ''}'' @ rest) = Some (kvs, rest)"
  using ih ne
proof (induction kvs)
  case Nil
  then show ?case by simp
next
  case (Cons kv kvs)
  obtain k v where kv: "kv = (k, v)" by (cases kv)
  have v: "\<And>rest. parseValue (serializeJSONProperty ind' v @ rest) = Some (v, rest)"
    using Cons.prems(1)[of k v ind'] ws kv by simp
  show ?case
  proof (cases "kvs = []")
    case True
    then show ?thesis
      using v ws kv
      by (simp add: parseMembers_unguarded quoteJSONString_Cons parse_quoted skip_ws isWs_simps)
  next
    case False
    have "parseMembers
           (join ('',\<newline>'' @ ind')
              (map (\<lambda>(k, v). quoteJSONString k @ '': '' @ serializeJSONProperty ind' v) kvs) @
            ''\<newline>'' @ ind @ ''}'' @ rest) = Some (kvs, rest)"
      by (rule Cons.IH) (use Cons.prems(1) False in auto)
    then show ?thesis
      using v ws kv False
      by (simp add: join_Cons_if parseMembers_unguarded quoteJSONString_Cons parse_quoted skip_ws
          isWs_simps del: join.simps)
  qed
qed

lemma value_roundtrip:
  "list_all isWs ind \<Longrightarrow> parseValue (serializeJSONProperty ind v @ rest) = Some (v, rest)"
proof (induction v arbitrary: ind rest)
  case (JString s)
  then show ?case
    by (simp add: quoteJSONString_Cons parse_quoted isWs_simps)
next
  case (JArray vs)
  show ?case
  proof (cases "vs = []")
    case True
    then show ?thesis by (simp add: isWs_simps)
  next
    case False
    then obtain v vs' where vs: "vs = v # vs'" by (cases vs) auto
    have e: "parseElements (join ('',\<newline>'' @ (ind @ gap)) (map (serializeJSONProperty (ind @ gap)) vs) @
           ''\<newline>'' @ ind @ '']'' @ rest) = Some (vs, rest)"
      using JArray.IH JArray.prems False
      by (intro elements_roundtrip ws_gap) auto
    have "parseArray (ind @ gap @ join ('',\<newline>'' @ (ind @ gap)) (map (serializeJSONProperty (ind @ gap)) vs) @
           ''\<newline>'' @ ind @ '']'' @ rest) = Some (vs, rest)"
      using e JArray.prems ws_gap[OF JArray.prems] skip_ws(2)[of "ind @ gap"]
      by (simp add: vs join_Cons_if parseArray_elements del: join.simps)
    then show ?thesis
      using False by (simp add: Let_def isWs_simps)
  qed
next
  case (JObject kvs)
  show ?case
  proof (cases "kvs = []")
    case True
    then show ?thesis by (simp add: isWs_simps)
  next
    case False
    then obtain k v kvs' where kvs: "kvs = (k, v) # kvs'" by (cases kvs) auto
    have m: "parseMembers
           (join ('',\<newline>'' @ (ind @ gap))
              (map (\<lambda>(k, v). quoteJSONString k @ '': '' @ serializeJSONProperty (ind @ gap) v) kvs) @
            ''\<newline>'' @ ind @ ''}'' @ rest) = Some (kvs, rest)"
    proof (rule members_roundtrip)
      fix k v ind rest
      assume "(k, v) \<in> set kvs" "list_all isWs ind"
      then show "parseValue (serializeJSONProperty ind v @ rest) = Some (v, rest)"
        using JObject.IH[of "(k, v)" v ind rest] by simp
    qed (use JObject.prems False ws_gap in auto)
    have "parseObject (ind @ gap @ join ('',\<newline>'' @ (ind @ gap))
              (map (\<lambda>(k, v). quoteJSONString k @ '': '' @ serializeJSONProperty (ind @ gap) v) kvs) @
            ''\<newline>'' @ ind @ ''}'' @ rest) = Some (kvs, rest)"
      using m JObject.prems ws_gap[OF JObject.prems] skip_ws(5)[of "ind @ gap"]
      by (simp add: kvs join_Cons_if quoteJSONString_Cons isWs_simps del: join.simps)
    then show ?thesis
      using False by (simp add: Let_def isWs_simps)
  qed
qed

lemma JSON_roundtrip: "JSON_parse (JSON_stringify v) = Some v"
  using value_roundtrip[of "[]" v "[]"] by (simp add: JSON_parse_def JSON_stringify_def)

lemma getProperty_setProperty:
  "key \<noteq> k \<Longrightarrow> getProperty (setProperty k v props) key = getProperty props key"
  by (induction props) (auto split: option.splits)

lemma getProperty_setNestedProperty:
  "key \<noteq> k1 \<Longrightarrow> getProperty (setNestedProperty k1 k2 v props) key = getProperty props key"
  by (auto simp: setNestedProperty_def getProperty_setProperty split: option.splits json.splits)

lemmas schema_simps = Let_def property_def isSchemaObject_def isObject_def schemaTypes_def
  getProperty_setProperty getProperty_setNestedProperty

lemma person_schema:
  "isObject (personSchemaObject data siteUrl)"
  "isSchemaObject (personSchemaObject data siteUrl)"
  "property (personSchemaObject data siteUrl) ''@type'' = Some (JString ''Person'')"
  by (simp_all add: personSchemaObject_def schema_simps)

lemma work_schema:
  "isObject (workExperienceSchemaObject exp)"
  "isSchemaObject (workExperienceSchemaObject exp)"
  "property (workExperienceSchemaObject exp) ''@type'' = Some (JString ''WorkExperience'')"
  by (simp_all add: workExperienceSchemaObject_def schema_simps split: option.splits)

lemma creative_schema:
  "isObject (creativeWorkSchemaObject authorName project)"
  "isSchemaObject (creativeWorkSchemaObject authorName project)"
  "property (creativeWorkSchemaObject authorName project) ''@type'' = Some (JString ''CreativeWork'')"
  by (simp_all add: creativeWorkSchemaObject_def schema_simps)

lemma education_schema:
  "isObject (educationSchemaObject edu)"
  "isSchemaObject (educationSchemaObject edu)"
  "property (educationSchemaObject edu) ''@type'' = Some (JString ''EducationalOccupationalCredential'')"
  by (simp_all add: educationSchemaObject_def schema_simps)

section \<open>Structured data\<close>

text \<open>
  The serialiser on a one-entry input, against the text \<open>JSON.stringify(schemas, null, 2)\<close>
  prints for it: two-space indentation, one property per line, \<open>": "\<close> after a key,
  \<open>"\<close> escaped as \<open>\"\<close>.
\<close>

lemma generateWorkExperienceSchema_example:
  \<open>generateWorkExperienceSchema [exampleExperience] =
     ''[\<newline>'' @
     ''  {\<newline>'' @
     ''    "@context": "https://schema.org",\<newline>'' @
     ''    "@type": "WorkExperience",\<newline>'' @
     ''    "name": "Dev",\<newline>'' @
     ''    "description": "Say '' @ [CHR 0x5C] @ ''"hi'' @ [CHR 0x5C] @ ''"",\<newline>'' @
     ''    "startDate": "2026-01",\<newline>'' @
     ''    "employer": {\<newline>'' @
     ''      "@type": "Organization",\<newline>'' @
     ''      "name": "ACME",\<newline>'' @
     ''      "url": "https://acme.example"\<newline>'' @
     ''    },\<newline>'' @
     ''    "location": "Remote",\<newline>'' @
     ''    "skills": [\<newline>'' @
     ''      "A",\<newline>'' @
     ''      "B"\<newline>'' @
     ''    ]\<newline>'' @
     ''  }\<newline>'' @
     '']''\<close>
  by (simp add: generateWorkExperienceSchema_def workExperienceSchemaObject_def exampleExperience_def
      JSON_stringify_def truthy_def setNestedProperty_def Let_def gap_def quoteJSONString_def
      quoteJSONChar_def)

text \<open>
  C7. For every input, the string each of the four generators returns parses as JSON.
  \<open>generatePersonSchema\<close> yields a single object; the three array-valued generators
  yield an array with one element per input record, in input order. The Person object
  and every array element has \<open>@context\<close> equal to \<open>https://schema.org\<close> and \<open>@type\<close>
  equal to one of the four fixed literals: \<open>Person\<close>, \<open>WorkExperience\<close>, \<open>CreativeWork\<close>
  and \<open>EducationalOccupationalCredential\<close> respectively. (The objects nested inside
  them, such as \<open>address\<close> and \<open>employer\<close>, are property values of these objects and
  carry a \<open>@type\<close> of their own.)
\<close>

theorem structured_data_valid_json:
  "JSON_parse (generatePersonSchema data siteUrl) = Some (personSchemaObject data siteUrl) \<and>
   isObject (personSchemaObject data siteUrl) \<and>
   isSchemaObject (personSchemaObject data siteUrl) \<and>
   property (personSchemaObject data siteUrl) ''@type'' = Some (JString ''Person'') \<and>
   JSON_parse (generateWorkExperienceSchema experiences) =
     Some (JArray (map workExperienceSchemaObject experiences)) \<and>
   length (map workExperienceSchemaObject experiences) = length experiences \<and>
   list_all isSchemaObject (map workExperienceSchemaObject experiences) \<and>
   list_all (\<lambda>v. property v ''@type'' = Some (JString ''WorkExperience''))
     (map workExperienceSchemaObject experiences) \<and>
   JSON_parse (generateCreativeWorkSchema projects authorName) =
     Some (JArray (map (creativeWorkSchemaObject authorName) projects)) \<and>
   length (map (creativeWorkSchemaObject authorName) projects) = length projects \<and>
   list_all isSchemaObject (map (creativeWorkSchemaObject authorName) projects) \<and>
   list_all (\<lambda>v. property v ''@type'' = Some (JString ''CreativeWork''))
     (map (creativeWorkSchemaObject authorName) projects) \<and>
   JSON_parse (generateEducationSchema education) =
     Some (JArray (map educationSchemaObject education)) \<and>
   length (map educationSchemaObject education) = length education \<and>
   list_all isSchemaObject (map educationSchemaObject education) \<and>
   list_all (\<lambda>v. property v ''@type'' = Some (JString ''EducationalOccupationalCredential''))
     (map educationSchemaObject education)"
proof -
  have p: "JSON_parse (generatePersonSchema data siteUrl) = Some (personSchemaObject data siteUrl)"
    by (simp add: generatePersonSchema_def JSON_roundtrip)
  have w: "JSON_parse (generateWorkExperienceSchema experiences) =
     Some (JArray (map workExperienceSchemaObject experiences))"
    by (simp add: generateWorkExperienceSchema_def JSON_roundtrip)
  have c: "JSON_parse (generateCreativeWorkSchema projects authorName) =
     Some (JArray (map (creativeWorkSchemaObject authorName) projects))"
    by (simp add: generateCreativeWorkSchema_def JSON_roundtrip)
  have e: "JSON_parse (generateEducationSchema education) =
     Some (JArray (map educationSchemaObject education))"
    by (simp add: generateEducationSchema_def JSON_roundtrip)
  have lw: "list_all isSchemaObject (map workExperienceSchemaObject experiences)"
    "list_all (\<lambda>v. property v ''@type'' = Some (JString ''WorkExperience''))
       (map workExperienceSchemaObject experiences)"
    by (simp_all add: list_all_iff work_schema)
  have lc: "list_all isSchemaObject (map (creativeWorkSchemaObject authorName) projects)"
    "list_all (\<lambda>v. property v ''@type'' = Some (JString ''CreativeWork''))
       (map (creativeWorkSchemaObject authorName) projects)"
    by (simp_all add: list_all_iff creative_schema)
  have le: "list_all isSchemaObject (map educationSchemaObject education)"
    "list_all (\<lambda>v. property v ''@type'' = Some (JString ''EducationalOccupationalCredential''))
       (map educationSchemaObject education)"
    by (simp_all add: list_all_iff education_schema)
  show ?thesis
    using p w c e lw lc le person_schema[of data siteUrl] by simp
qed

end
